theory Spec2Isabelle
  imports Main "HOL-Library.Word"
begin

unbundle bit_operations_syntax

section \<open>JavaScript strings\<close>

text \<open>
  A source string is a \<^typ>\<open>string\<close>; the texts the library reads (FEN, PGN) are ASCII.
  The characters that cannot be written inside a literal get a name.
\<close>

definition DQ :: char where
  "DQ = CHR 0x22"

definition BSL :: char where
  "BSL = CHR 0x5C"

definition NL :: char where
  "NL = CHR 0x0A"

definition CR :: char where
  "CR = CHR 0x0D"

text \<open>The class \<open>\s\<close> of a regular expression, which is also what \<open>trim\<close> strips.\<close>

definition is_space :: "char \<Rightarrow> bool" where
  "is_space c = (let n = (of_char c :: nat) in n = 32 \<or> (9 \<le> n \<and> n \<le> 13) \<or> n = 160)"

definition trim :: "string \<Rightarrow> string" where
  "trim s = rev (dropWhile is_space (rev (dropWhile is_space s)))"

definition startsWith :: "string \<Rightarrow> string \<Rightarrow> bool" where
  "startsWith s p = (take (length p) s = p)"

text \<open>\<open>s.split(d)\<close> for a one-character separator: the empty string gives one empty piece.\<close>

fun split_on :: "char \<Rightarrow> string \<Rightarrow> string list" where
  "split_on d [] = [[]]"
| "split_on d (c # cs) =
     (if c = d then [] # split_on d cs
      else (case split_on d cs of [] \<Rightarrow> [[c]] | l # ls \<Rightarrow> (c # l) # ls))"

text \<open>\<open>s.substring(a, b)\<close>: both bounds are clamped to the length and swapped when out of order.\<close>

definition substring :: "string \<Rightarrow> nat \<Rightarrow> nat \<Rightarrow> string" where
  "substring s a b =
     (let a' = min a (length s); b' = min b (length s); lo = min a' b'; hi = max a' b'
      in take (hi - lo) (drop lo s))"

text \<open>\<open>s.indexOf(c, k)\<close>; \<open>None\<close> stands for \<open>-1\<close>.\<close>

definition indexOf :: "char \<Rightarrow> string \<Rightarrow> nat \<Rightarrow> nat option" where
  "indexOf c s k =
     (let r = drop k s
      in if c \<in> set r then Some (k + length (takeWhile (\<lambda>x. x \<noteq> c) r)) else None)"

text \<open>\<open>s.replace(/ab/g, r)\<close> for a two-character pattern: left to right, without overlap.\<close>

fun replace_pair :: "char \<Rightarrow> char \<Rightarrow> string \<Rightarrow> string \<Rightarrow> string" where
  "replace_pair a b r (x # y # zs) =
     (if x = a \<and> y = b then r @ replace_pair a b r zs else x # replace_pair a b r (y # zs))"
| "replace_pair a b r xs = xs"

section \<open>Header scanner and indexer (Cursor.ts, headerParser.ts)\<close>

text \<open>The match of \<open>/^\[([A-Za-z0-9_]+)\s+/\<close>: the tag name and the length of the whole match.\<close>

definition is_name_char :: "char \<Rightarrow> bool" where
  "is_name_char c =
     (let n = (of_char c :: nat)
      in (65 \<le> n \<and> n \<le> 90) \<or> (97 \<le> n \<and> n \<le> 122) \<or> (48 \<le> n \<and> n \<le> 57) \<or> n = 95)"

definition nameMatch :: "string \<Rightarrow> (string \<times> nat) option" where
  "nameMatch ln =
     (case ln of
        [] \<Rightarrow> None
      | c # r \<Rightarrow>
          if c \<noteq> CHR ''['' then None
          else (let key = takeWhile is_name_char r;
                    ws = takeWhile is_space (dropWhile is_name_char r)
                in if key = [] \<or> ws = [] then None
                   else Some (key, 1 + length key + length ws)))"

text \<open>The backslashes that stand directly before position \<open>k\<close> (the inner \<open>while\<close> loop).\<close>

definition backslashes_before :: "string \<Rightarrow> nat \<Rightarrow> nat" where
  "backslashes_before ln k = length (takeWhile (\<lambda>c. c = BSL) (rev (take k ln)))"

text \<open>The loop that looks for the closing quote from position \<open>k\<close> on.\<close>

function find_closed :: "string \<Rightarrow> nat \<Rightarrow> nat option" where
  "find_closed ln k =
     (if k < length ln
      then (if ln ! k = DQ \<and> even (backslashes_before ln k) then Some k
            else find_closed ln (Suc k))
      else None)"
  by pat_completeness auto
termination
  by (relation "measure (\<lambda>(ln, k). length ln - k)") auto

declare find_closed.simps [simp del]

definition unescape :: "string \<Rightarrow> string" where
  "unescape raw = replace_pair BSL DQ [DQ] (replace_pair BSL BSL [BSL] raw)"

definition parseTagPairLine :: "string \<Rightarrow> (string \<times> string) option" where
  "parseTagPairLine line =
     (let ln = trim line
      in if \<not> startsWith ln ''['' then None
         else (case nameMatch ln of
                 None \<Rightarrow> None
               | Some (key, mlen) \<Rightarrow>
                   (case indexOf DQ ln mlen of
                      None \<Rightarrow> None
                    | Some firstQuote \<Rightarrow>
                        (case find_closed ln (firstQuote + 1) of
                           None \<Rightarrow> None
                         | Some closed \<Rightarrow>
                             (let after = trim (substring ln (closed + 1) (length ln))
                              in if \<not> startsWith after '']'' then None
                                 else Some (key, unescape (substring ln (firstQuote + 1) closed)))))))"

record GameIndex =
  startOffset :: nat
  endOffset :: nat
  headers :: "string \<rightharpoonup> string"

text \<open>
  The inner loop of \<open>indexPgnGames\<close> over the lines from \<open>j = i\<close> on: it stops at a blank line
  or at a line that does not start with a bracket, and skips (\<open>continue\<close>) a line whose tag
  pair cannot be read. Its body is the statement sequence of \<open>parseTagPairLine\<close>.
\<close>

fun scan_headers :: "string list \<Rightarrow> (string \<rightharpoonup> string) \<Rightarrow> (string \<rightharpoonup> string)" where
  "scan_headers [] h = h"
| "scan_headers (l # ls) h =
     (let ln = trim l
      in if ln = [] then h
         else if \<not> startsWith ln ''['' then h
         else (case parseTagPairLine ln of
                 None \<Rightarrow> scan_headers ls h
               | Some (key, v) \<Rightarrow> scan_headers ls (h(key \<mapsto> v))))"

definition getLineOffset :: "string \<Rightarrow> nat \<Rightarrow> nat" where
  "getLineOffset pgn lineNumber =
     sum_list (map (\<lambda>l. length l + 1) (take lineNumber (split_on NL pgn)))"

text \<open>An entry pushed with \<open>endOffset = 0\<close> is closed when the next game, or the end, is found.\<close>

definition close_last :: "nat \<Rightarrow> GameIndex list \<Rightarrow> GameIndex list" where
  "close_last off indices =
     (if indices \<noteq> [] \<and> endOffset (last indices) = 0
      then butlast indices @ [(last indices)\<lparr>endOffset := off\<rparr>]
      else indices)"

definition index_line :: "string \<Rightarrow> string list \<Rightarrow> nat \<Rightarrow> GameIndex list \<Rightarrow> GameIndex list" where
  "index_line pgn lines i indices =
     (let line = trim (lines ! i)
      in if startsWith line ''[''
         then (let prev = (if i > 0 then trim (lines ! (i - 1)) else [])
               in if prev \<noteq> [] then indices
                  else (let off = getLineOffset pgn i;
                            indices' = close_last off indices;
                            hs = scan_headers (drop i lines) Map.empty
                        in indices' @ [\<lparr>startOffset = off, endOffset = 0, headers = hs\<rparr>]))
         else indices)"

definition indexPgnGames :: "string \<Rightarrow> GameIndex list" where
  "indexPgnGames pgn =
     (let lines = split_on NL pgn
      in close_last (length pgn) (fold (index_line pgn lines) [0..<length lines] []))"

text \<open>The two-game text of the indexing test (\<open>multiPgn\<close>).\<close>

definition multiPgn :: string where
  "multiPgn =
     ''[Event '' @ [DQ] @ ''Game One'' @ [DQ] @ '']'' @ [NL] @
     ''[Site '' @ [DQ] @ ''Somewhere'' @ [DQ] @ '']'' @ [NL] @
     ''[White '' @ [DQ] @ ''Alice'' @ [DQ] @ '']'' @ [NL] @
     ''[Black '' @ [DQ] @ ''Bob'' @ [DQ] @ '']'' @ [NL] @
     [NL] @
     ''1. e4 e5 2. Nf3 Nc6 *'' @ [NL] @
     [NL] @
     ''[Event '' @ [DQ] @ ''Game Two'' @ [DQ] @ '']'' @ [NL] @
     ''[Site '' @ [DQ] @ ''Other'' @ [DQ] @ '']'' @ [NL] @
     ''[White '' @ [DQ] @ ''Carol'' @ [DQ] @ '']'' @ [NL] @
     ''[Black '' @ [DQ] @ ''Dave'' @ [DQ] @ '']'' @ [NL] @
     ''[Annotator '' @ [DQ] @ ''O'' @ [BSL, DQ] @ ''Connor'' @ [DQ] @ '']'' @ [NL] @
     [NL] @
     ''1. d4 d5 *'' @ [NL]"

section \<open>Cursor (Cursor.ts)\<close>

text \<open>
  An \<open>Error\<close> carries its message and, when the generated parser raised it, the text it
  found (\<open>found\<close>).
\<close>

datatype jserror = Error (message: string) (found: "string option")

text \<open>
  The grammar (\<open>parse\<close> of pgn.ts) and the construction of a \<open>Game\<close> from headers and a move
  tree are used by the cursor as black boxes; they are parameters here. \<open>'r\<close> is the type of
  move trees, \<open>'g\<close> the type of games.
\<close>

record ('r, 'g) pgn_parsers =
  parse :: "string \<Rightarrow> jserror + ((string \<rightharpoonup> string) \<times> 'r)"
  newGame :: "(string \<rightharpoonup> string) \<Rightarrow> 'r \<Rightarrow> jserror + 'g"

text \<open>\<open>processPgnToGame(pgn, {strict})\<close> of pgnProcessor.ts; the cursor passes no \<open>newlineChar\<close>.\<close>

definition processPgnToGame :: "('r, 'g) pgn_parsers \<Rightarrow> string \<Rightarrow> jserror + 'g" where
  "processPgnToGame P pgn_text =
     (case parse P pgn_text of Inl e \<Rightarrow> Inl e | Inr (hs, root) \<Rightarrow> newGame P hs root)"

text \<open>What a cursor is built from and never changes: the text, the index and the options.\<close>

record ('r, 'g) cursor_cfg =
  parsers :: "('r, 'g) pgn_parsers"
  pgn :: string
  gameIndices :: "GameIndex list"
  opt_start :: nat
  opt_length :: nat
  opt_prefetch :: nat
  opt_cacheSize :: nat
  opt_strict :: bool

text \<open>
  The mutable fields. \<open>cache\<close> is a JavaScript \<open>Map\<close>, kept as the list of its entries in
  insertion order; \<open>onError_calls\<close> logs the calls of the \<open>onError\<close> callback.
\<close>

record 'g cursor =
  currentPosition :: nat
  cache :: "(nat \<times> 'g) list"
  errors :: "(nat \<times> jserror) list"
  onError_calls :: "(jserror \<times> nat) list"

text \<open>The constructor: \<open>options.x || default\<close> replaces a missing and a zero value alike.\<close>

definition js_or :: "nat option \<Rightarrow> nat \<Rightarrow> nat" where
  "js_or v d = (case v of None \<Rightarrow> d | Some n \<Rightarrow> if n = 0 then d else n)"

definition new_cfg ::
  "('r, 'g) pgn_parsers \<Rightarrow> string \<Rightarrow> GameIndex list \<Rightarrow> nat option \<Rightarrow> nat option \<Rightarrow> nat option \<Rightarrow>
     nat option \<Rightarrow> bool \<Rightarrow> ('r, 'g) cursor_cfg" where
  "new_cfg P text indices start len prefetch csize strict =
     \<lparr>parsers = P, pgn = text, gameIndices = indices, opt_start = js_or start 0,
      opt_length = js_or len (length indices), opt_prefetch = js_or prefetch 1,
      opt_cacheSize = js_or csize 10, opt_strict = strict\<rparr>"

definition new_cursor :: "('r, 'g) cursor_cfg \<Rightarrow> 'g cursor" where
  "new_cursor cfg = \<lparr>currentPosition = opt_start cfg, cache = [], errors = [], onError_calls = []\<rparr>"

definition evictOldest :: "'g cursor \<Rightarrow> 'g cursor" where
  "evictOldest c = c\<lparr>cache := tl (cache c)\<rparr>"

text \<open>\<open>Map.set\<close>: an existing key keeps its place, a new key goes to the end.\<close>

fun map_set :: "nat \<Rightarrow> 'g \<Rightarrow> (nat \<times> 'g) list \<Rightarrow> (nat \<times> 'g) list" where
  "map_set k v [] = [(k, v)]"
| "map_set k v ((k', v') # kvs) = (if k = k' then (k, v) # kvs else (k', v') # map_set k v kvs)"

definition cache_game :: "('r, 'g) cursor_cfg \<Rightarrow> nat \<Rightarrow> 'g \<Rightarrow> 'g cursor \<Rightarrow> 'g cursor" where
  "cache_game cfg index game c =
     (let c1 = (if length (cache c) \<ge> opt_cacheSize cfg then evictOldest c else c)
      in c1\<lparr>cache := map_set index game (cache c1)\<rparr>)"

text \<open>
  The first match of \<open>/\r?\n\s*\r?\n/\<close>: its index and its length. After the first line
  end, the greedy \<open>\s*\<close> runs over the whole block of white space and gives back characters
  until a line end follows, so the match ends after the last line feed of that block.
\<close>

definition blank_tail :: "string \<Rightarrow> nat option" where
  "blank_tail r =
     (let w = takeWhile is_space r
      in if NL \<in> set w then Some (length w - length (takeWhile (\<lambda>c. c \<noteq> NL) (rev w)))
         else None)"

fun blank_line_match :: "string \<Rightarrow> nat \<Rightarrow> (nat \<times> nat) option" where
  "blank_line_match [] i = None"
| "blank_line_match (c # cs) i =
     (let here =
        (if c = CR
         then (case cs of
                 [] \<Rightarrow> None
               | d # ds \<Rightarrow> if d = NL then map_option (\<lambda>n. 2 + n) (blank_tail ds) else None)
         else if c = NL then map_option (\<lambda>n. 1 + n) (blank_tail cs)
         else None)
      in case here of Some n \<Rightarrow> Some (i, n) | None \<Rightarrow> blank_line_match cs (Suc i))"

definition movesOnly :: "string \<Rightarrow> string" where
  "movesOnly gamePgn =
     (case blank_line_match gamePgn 0 of
        Some (i, n) \<Rightarrow> substring gamePgn (i + n) (length gamePgn)
      | None \<Rightarrow> [])"

definition safe_pgn :: "string \<Rightarrow> string" where
  "safe_pgn gamePgn = ''[Event '' @ [DQ] @ ''_'' @ [DQ] @ '']'' @ [NL, NL] @ movesOnly gamePgn"

text \<open>The inner \<open>try\<close> block: parse the movetext alone, build the game on the indexed headers.\<close>

definition fallback_parse :: "('r, 'g) pgn_parsers \<Rightarrow> GameIndex \<Rightarrow> string \<Rightarrow> jserror + 'g" where
  "fallback_parse P gi gamePgn =
     (case parse P (safe_pgn gamePgn) of
        Inl e \<Rightarrow> Inl e
      | Inr (hs, root) \<Rightarrow> newGame P (headers gi) root)"

text \<open>The text of one game: \<open>pgn.substring(startOffset, endOffset)\<close>.\<close>

definition game_slice :: "('r, 'g) cursor_cfg \<Rightarrow> nat \<Rightarrow> string" where
  "game_slice cfg index =
     substring (pgn cfg) (startOffset (gameIndices cfg ! index)) (endOffset (gameIndices cfg ! index))"

text \<open>
  \<open>parseGame\<close> returns \<open>Inl e\<close> for a thrown error, \<open>Inr None\<close> for \<open>null\<close> and
  \<open>Inr (Some g)\<close> for a game, with the cursor as it is left. Reading \<open>gameIndices[index]\<close>
  outside the array gives \<open>undefined\<close>, and its field access raises a \<open>TypeError\<close>.
\<close>

definition parseGame ::
  "('r, 'g) cursor_cfg \<Rightarrow> nat \<Rightarrow> 'g cursor \<Rightarrow> (jserror + 'g option) \<times> 'g cursor" where
  "parseGame cfg index c =
     (case map_of (cache c) index of
        Some g \<Rightarrow> (Inr (Some g), c)
      | None \<Rightarrow>
          if index \<ge> length (gameIndices cfg) then (Inl (Error ''TypeError'' None), c)
          else
            (let gi = gameIndices cfg ! index;
                 gamePgn = game_slice cfg index
             in case processPgnToGame (parsers cfg) gamePgn of
                  Inr game \<Rightarrow> (Inr (Some game), cache_game cfg index game c)
                | Inl err \<Rightarrow>
                    (let c1 = c\<lparr>errors := errors c @ [(index, err)]\<rparr>
                     in case fallback_parse (parsers cfg) gi gamePgn of
                          Inr game \<Rightarrow> (Inr (Some game), cache_game cfg index game c1)
                        | Inl fErr \<Rightarrow>
                            (let c2 = c1\<lparr>errors := errors c1 @ [(index, fErr)]\<rparr>
                             in if opt_strict cfg then (Inl fErr, c2)
                                else (Inr None,
                                      c2\<lparr>onError_calls := onError_calls c2 @ [(fErr, index)]\<rparr>)))))"

text \<open>\<open>prefetchGames\<close>: the loop over \<open>i = 1 .. prefetch\<close>; a throw of \<open>parseGame\<close> ends it.\<close>

fun prefetch_loop ::
  "('r, 'g) cursor_cfg \<Rightarrow> nat list \<Rightarrow> 'g cursor \<Rightarrow> (jserror + unit) \<times> 'g cursor" where
  "prefetch_loop cfg [] c = (Inr (), c)"
| "prefetch_loop cfg (i # is) c =
     (let prefetchIndex = currentPosition c + i
      in if prefetchIndex < length (gameIndices cfg) \<and> map_of (cache c) prefetchIndex = None
         then (case parseGame cfg prefetchIndex c of
                 (Inl e, c') \<Rightarrow> (Inl e, c')
               | (Inr g, c') \<Rightarrow> prefetch_loop cfg is c')
         else prefetch_loop cfg is c)"

definition prefetchGames :: "('r, 'g) cursor_cfg \<Rightarrow> 'g cursor \<Rightarrow> (jserror + unit) \<times> 'g cursor" where
  "prefetchGames cfg c = prefetch_loop cfg [1..<Suc (opt_prefetch cfg)] c"

definition hasNext :: "('r, 'g) cursor_cfg \<Rightarrow> 'g cursor \<Rightarrow> bool" where
  "hasNext cfg c =
     (currentPosition c < opt_start cfg + opt_length cfg \<and>
      currentPosition c < length (gameIndices cfg))"

definition seek :: "('r, 'g) cursor_cfg \<Rightarrow> nat \<Rightarrow> 'g cursor \<Rightarrow> bool \<times> 'g cursor" where
  "seek cfg index c =
     (if index \<ge> length (gameIndices cfg) then (False, c)
      else (True, c\<lparr>currentPosition := index\<rparr>))"

definition cursor_next ::
  "('r, 'g) cursor_cfg \<Rightarrow> 'g cursor \<Rightarrow> (jserror + 'g option) \<times> 'g cursor" where
  "cursor_next cfg c =
     (if \<not> hasNext cfg c then (Inr None, c)
      else (case parseGame cfg (currentPosition c) c of
              (Inl e, c1) \<Rightarrow> (Inl e, c1)
            | (Inr game, c1) \<Rightarrow>
                (let c2 = c1\<lparr>currentPosition := currentPosition c1 + 1\<rparr>
                 in if opt_prefetch cfg > 0
                    then (case prefetchGames cfg c2 of
                            (Inl e, c3) \<Rightarrow> (Inl e, c3)
                          | (Inr u, c3) \<Rightarrow> (Inr game, c3))
                    else (Inr game, c2))))"

subsection \<open>The cursor that tests the error before it falls back\<close>

definition SQ :: char where
  "SQ = CHR 0x27"

fun is_substring :: "string \<Rightarrow> string \<Rightarrow> bool" where
  "is_substring p [] = (p = [])"
| "is_substring p (c # cs) = (startsWith (c # cs) p \<or> is_substring p cs)"

text \<open>
  The other copies of Cursor.ts, among them the one the asynchronous iteration and its
  \<open>terminate\<close> belong to, test the caught error before they fall back. \<open>found\<close> is
  \<open>err.found || null\<close>, so an empty text counts as \<open>null\<close>, and \<open>String(null)\<close> holds no
  bracket; \<open>msg\<close> is \<open>err.message || ''\<close>.
\<close>

definition looksLikeHeaderIssue :: "jserror \<Rightarrow> bool" where
  "looksLikeHeaderIssue err =
     (let fnd = (case found err of None \<Rightarrow> None | Some s \<Rightarrow> if s = [] then None else Some s);
          msg = message err
      in fnd = Some ''[''
         \<or> is_substring ([SQ] @ ''['' @ [SQ] @ '' found'') msg
         \<or> (case fnd of None \<Rightarrow> False | Some s \<Rightarrow> CHR ''['' \<in> set s))"

text \<open>\<open>parseGame\<close> of these copies: as above, but for the test between the two parses.\<close>

definition parseGame_guarded ::
  "('r, 'g) cursor_cfg \<Rightarrow> nat \<Rightarrow> 'g cursor \<Rightarrow> (jserror + 'g option) \<times> 'g cursor" where
  "parseGame_guarded cfg index c =
     (case map_of (cache c) index of
        Some g \<Rightarrow> (Inr (Some g), c)
      | None \<Rightarrow>
          if index \<ge> length (gameIndices cfg) then (Inl (Error ''TypeError'' None), c)
          else
            (let gi = gameIndices cfg ! index;
                 gamePgn = game_slice cfg index
             in case processPgnToGame (parsers cfg) gamePgn of
                  Inr game \<Rightarrow> (Inr (Some game), cache_game cfg index game c)
                | Inl err \<Rightarrow>
                    (let c1 = c\<lparr>errors := errors c @ [(index, err)]\<rparr>
                     in if \<not> looksLikeHeaderIssue err
                        then (if opt_strict cfg then (Inl err, c1)
                              else (Inr None,
                                    c1\<lparr>onError_calls := onError_calls c1 @ [(err, index)]\<rparr>))
                        else
                          (case fallback_parse (parsers cfg) gi gamePgn of
                             Inr game \<Rightarrow> (Inr (Some game), cache_game cfg index game c1)
                           | Inl fErr \<Rightarrow>
                               (let c2 = c1\<lparr>errors := errors c1 @ [(index, fErr)]\<rparr>
                                in if opt_strict cfg then (Inl fErr, c2)
                                   else (Inr None,
                                         c2\<lparr>onError_calls := onError_calls c2 @ [(fErr, index)]\<rparr>))))))"

fun prefetch_loop_guarded ::
  "('r, 'g) cursor_cfg \<Rightarrow> nat list \<Rightarrow> 'g cursor \<Rightarrow> (jserror + unit) \<times> 'g cursor" where
  "prefetch_loop_guarded cfg [] c = (Inr (), c)"
| "prefetch_loop_guarded cfg (i # is) c =
     (let prefetchIndex = currentPosition c + i
      in if prefetchIndex < length (gameIndices cfg) \<and> map_of (cache c) prefetchIndex = None
         then (case parseGame_guarded cfg prefetchIndex c of
                 (Inl e, c') \<Rightarrow> (Inl e, c')
               | (Inr g, c') \<Rightarrow> prefetch_loop_guarded cfg is c')
         else prefetch_loop_guarded cfg is c)"

text \<open>
  \<open>hasNext\<close> and \<open>next\<close> of the copy with \<open>terminate\<close>. Its \<open>length\<close> option may be
  \<open>Infinity\<close>, for which the bound is the number of games; any length of at least that
  number gives the same bound, so \<open>opt_length\<close> stands for it.
\<close>

definition hasNext_guarded :: "('r, 'g) cursor_cfg \<Rightarrow> 'g cursor \<Rightarrow> bool" where
  "hasNext_guarded cfg c =
     (currentPosition c < min (length (gameIndices cfg)) (opt_start cfg + opt_length cfg))"

definition cursor_next_guarded ::
  "('r, 'g) cursor_cfg \<Rightarrow> 'g cursor \<Rightarrow> (jserror + 'g option) \<times> 'g cursor" where
  "cursor_next_guarded cfg c =
     (if \<not> hasNext_guarded cfg c then (Inr None, c)
      else (case parseGame_guarded cfg (currentPosition c) c of
              (Inl e, c1) \<Rightarrow> (Inl e, c1)
            | (Inr game, c1) \<Rightarrow>
                (let c2 = c1\<lparr>currentPosition := currentPosition c1 + 1\<rparr>
                 in case prefetch_loop_guarded cfg [1..<Suc (opt_prefetch cfg)] c2 of
                      (Inl e, c3) \<Rightarrow> (Inl e, c3)
                    | (Inr u, c3) \<Rightarrow> (Inr game, c3))))"

subsection \<open>A three-game archive and a stand-in grammar\<close>

text \<open>
  An instance of the parameters, to run the cursor on: this grammar rejects any text that
  contains a percent sign, reporting it as the text found, and otherwise returns the movetext
  as the move tree; a game is its move tree. The second game of the archive has a stray
  line in its header block, the third has the stray character in its movetext.
\<close>

definition demo_error :: jserror where
  "demo_error = Error (''Expected move but '' @ [DQ] @ ''%'' @ [DQ] @ '' found.'') (Some ''%'')"

definition demo_parsers :: "(string, string) pgn_parsers" where
  "demo_parsers =
     \<lparr>parse = (\<lambda>s. if CHR ''%'' \<in> set s then Inl demo_error else Inr (Map.empty, movesOnly s)),
      newGame = (\<lambda>hs root. Inr root)\<rparr>"

definition demo_pgn :: string where
  "demo_pgn =
     ''[Event '' @ [DQ] @ ''A'' @ [DQ] @ '']'' @ [NL] @
     [NL] @
     ''1. e4 e5 *'' @ [NL] @
     [NL] @
     ''[Event '' @ [DQ] @ ''B'' @ [DQ] @ '']'' @ [NL] @
     ''%'' @ [NL] @
     [NL] @
     ''1. d4 d5 *'' @ [NL] @
     [NL] @
     ''[Event '' @ [DQ] @ ''C'' @ [DQ] @ '']'' @ [NL] @
     [NL] @
     ''1. c4 % *'' @ [NL]"

definition demo_cfg :: "(string, string) cursor_cfg" where
  "demo_cfg = new_cfg demo_parsers demo_pgn (indexPgnGames demo_pgn) None None None None False"

text \<open>A second stand-in grammar: it rejects the same texts, but reports a bracket as the
  text found, as the generated parser does when a header line stops it.\<close>

definition bracket_error :: jserror where
  "bracket_error = Error (''Expected move but '' @ [DQ] @ ''['' @ [DQ] @ '' found.'') (Some ''['')"

definition bracket_cfg :: "(string, string) cursor_cfg" where
  "bracket_cfg =
     demo_cfg\<lparr>parsers :=
       \<lparr>parse = (\<lambda>s. if CHR ''%'' \<in> set s then Inl bracket_error else Inr (Map.empty, movesOnly s)),
        newGame = (\<lambda>hs root. Inr root)\<rparr>\<rparr>"


section \<open>Pieces, squares and the constants of types.ts\<close>

datatype color = White | Black

datatype ptype = Pawn | Knight | Bishop | Rook | Queen | King

datatype piece = Piece (pcolor: color) (ptype: ptype)

definition swapColor :: "color \<Rightarrow> color" where
  "swapColor c = (if c = White then Black else White)"

text \<open>
  Modelled from the spec: the constants and helpers of types.ts, which is not among the
  source files. A square is its 0x88 index \<open>rank * 16 + file\<close> with a8 = 0 and h1 = 119
  (specification, section 3); the flags are the bit set NORMAL, CAPTURE, BIG_PAWN, EP_CAPTURE,
  PROMOTION, KSIDE_CASTLE, QSIDE_CASTLE, NULL_MOVE in that order, which is also what
  \<open>_castlingKey\<close> relies on when it shifts the castling bits by 5 and by 3.
\<close>

definition EMPTY :: int where
  "EMPTY = -1"

definition NORMAL :: int where "NORMAL = 1"
definition CAPTURE :: int where "CAPTURE = 2"
definition BIG_PAWN :: int where "BIG_PAWN = 4"
definition EP_CAPTURE :: int where "EP_CAPTURE = 8"
definition PROMOTION :: int where "PROMOTION = 16"
definition KSIDE_CASTLE :: int where "KSIDE_CASTLE = 32"
definition QSIDE_CASTLE :: int where "QSIDE_CASTLE = 64"
definition NULL_MOVE :: int where "NULL_MOVE = 128"

definition sq_a8 :: int where "sq_a8 = 0"
definition sq_e8 :: int where "sq_e8 = 4"
definition sq_h8 :: int where "sq_h8 = 7"
definition sq_a1 :: int where "sq_a1 = 112"
definition sq_e1 :: int where "sq_e1 = 116"
definition sq_h1 :: int where "sq_h1 = 119"

definition rank_of :: "int \<Rightarrow> int" where
  "rank_of sq = drop_bit 4 sq"

definition file_of :: "int \<Rightarrow> int" where
  "file_of sq = sq AND 15"

definition off_board :: "int \<Rightarrow> bool" where
  "off_board sq = (sq AND 136 \<noteq> 0)"

text \<open>\<open>algebraic\<close>: one character of \<open>abcdefgh\<close> and one of \<open>87654321\<close>, each empty out of range.\<close>

definition char_at :: "string \<Rightarrow> int \<Rightarrow> string" where
  "char_at s i = (if 0 \<le> i \<and> i < int (length s) then [s ! nat i] else [])"

definition algebraic :: "int \<Rightarrow> string" where
  "algebraic sq = char_at ''abcdefgh'' (file_of sq) @ char_at ''87654321'' (rank_of sq)"

text \<open>\<open>Ox88[name]\<close>: the index of a square name, \<open>None\<close> (\<open>undefined\<close>) for any other string.\<close>

definition Ox88 :: "string \<Rightarrow> int option" where
  "Ox88 name =
     (case name of
        [f, r] \<Rightarrow>
          (let fi = (of_char f :: nat); ri = (of_char r :: nat)
           in if 97 \<le> fi \<and> fi \<le> 104 \<and> 49 \<le> ri \<and> ri \<le> 56
              then Some ((56 - int ri) * 16 + (int fi - 97))
              else None)
      | _ \<Rightarrow> None)"

definition ptype_letter :: "ptype \<Rightarrow> char" where
  "ptype_letter t =
     (case t of Pawn \<Rightarrow> CHR ''p'' | Knight \<Rightarrow> CHR ''n'' | Bishop \<Rightarrow> CHR ''b''
      | Rook \<Rightarrow> CHR ''r'' | Queen \<Rightarrow> CHR ''q'' | King \<Rightarrow> CHR ''k'')"

definition letter_ptype :: "char \<Rightarrow> ptype option" where
  "letter_ptype c =
     (if c = CHR ''p'' then Some Pawn else if c = CHR ''n'' then Some Knight
      else if c = CHR ''b'' then Some Bishop else if c = CHR ''r'' then Some Rook
      else if c = CHR ''q'' then Some Queen else if c = CHR ''k'' then Some King else None)"

definition toUpperCase :: "char \<Rightarrow> char" where
  "toUpperCase c =
     (let n = (of_char c :: nat) in if 97 \<le> n \<and> n \<le> 122 then char_of (n - 32) else c)"

definition toLowerCase :: "char \<Rightarrow> char" where
  "toLowerCase c =
     (let n = (of_char c :: nat) in if 65 \<le> n \<and> n \<le> 90 then char_of (n + 32) else c)"

definition isDigit :: "char \<Rightarrow> bool" where
  "isDigit c = (let n = (of_char c :: nat) in 48 \<le> n \<and> n \<le> 57)"

definition digit_value :: "char \<Rightarrow> nat" where
  "digit_value c = of_char c - 48"

text \<open>
  The Zobrist tables \<open>PIECE_KEYS\<close>, \<open>EP_KEYS\<close>, \<open>CASTLING_KEYS\<close> and \<open>SIDE_KEY\<close> of types.ts
  are filled by a pseudo-random generator; they are a parameter. A piece key is read by
  colour, kind and square index; the table has 128 squares (specification, section 4.1).
\<close>

record zobrist =
  PIECE_KEYS :: "color \<Rightarrow> ptype \<Rightarrow> int \<Rightarrow> 64 word"
  EP_KEYS :: "int \<Rightarrow> 64 word"
  CASTLING_KEYS :: "int \<Rightarrow> 64 word"
  SIDE_KEY :: "64 word"

section \<open>Position and game state (Game.ts)\<close>

text \<open>An \<open>InternalMove\<close>; \<open>captured\<close> and \<open>promotion\<close> are optional fields.\<close>

record move =
  mcolor :: color
  mfrom :: int
  mto :: int
  mpiece :: ptype
  captured :: "ptype option"
  promotion :: "ptype option"
  flags :: int

text \<open>
  A history entry: the move and the snapshot taken by \<open>_push\<close>. The snapshot's \<open>board\<close>,
  \<open>hash\<close> and \<open>positionCount\<close> are placeholders the source never reads.
\<close>

record snapshot =
  s_kings :: "color \<Rightarrow> int"
  s_turn :: color
  s_castling :: "color \<Rightarrow> int"
  s_epSquare :: int
  s_fenEpSquare :: int
  s_halfMoves :: int
  s_moveNumber :: int

text \<open>
  The fields of a \<open>Game\<close>. \<open>board\<close> is the sparse array \<open>_position._board\<close>; \<open>history\<close> has
  its newest entry first; \<open>positionCount\<close> is the \<open>Map\<close> from hash to count; \<open>header\<close> keeps
  the tags in order, \<open>None\<close> being the \<open>null\<close> placeholder.
\<close>

record game =
  board :: "int \<Rightarrow> piece option"
  turn :: color
  kings :: "color \<Rightarrow> int"
  castling :: "color \<Rightarrow> int"
  epSquare :: int
  fenEpSquare :: int
  halfMoves :: int
  moveNumber :: int
  hash :: "64 word"
  history :: "(move \<times> snapshot) list"
  positionCount :: "64 word \<rightharpoonup> int"
  header :: "(string \<times> string option) list"

subsection \<open>Zobrist hashing\<close>

definition pieceKey :: "zobrist \<Rightarrow> game \<Rightarrow> int \<Rightarrow> 64 word" where
  "pieceKey zk g i =
     (case board g i of None \<Rightarrow> 0 | Some p \<Rightarrow> PIECE_KEYS zk (pcolor p) (ptype p) i)"

definition epKey :: "zobrist \<Rightarrow> game \<Rightarrow> 64 word" where
  "epKey zk g = (if epSquare g = EMPTY then 0 else EP_KEYS zk (epSquare g AND 7))"

definition castlingKey :: "zobrist \<Rightarrow> game \<Rightarrow> 64 word" where
  "castlingKey zk g =
     CASTLING_KEYS zk (drop_bit 5 (castling g White) OR drop_bit 3 (castling g Black))"

text \<open>
  The loop \<open>for (i = a8; i <= h1; i++) { if (i & 0x88) { i += 7; continue } ... }\<close> visits
  the squares of the board in increasing order.
\<close>

function squares_from :: "int \<Rightarrow> int list" where
  "squares_from i =
     (if i > 119 then []
      else if off_board i then squares_from (i + 8)
      else i # squares_from (i + 1))"
  by pat_completeness auto
termination
  by (relation "measure (\<lambda>i. nat (120 - i))") auto

declare squares_from.simps [simp del]

definition computeHash :: "zobrist \<Rightarrow> game \<Rightarrow> 64 word" where
  "computeHash zk g =
     (let h1 = fold (\<lambda>i h. if board g i \<noteq> None then h XOR pieceKey zk g i else h)
                 (squares_from 0) 0;
          h2 = h1 XOR epKey zk g;
          h3 = h2 XOR castlingKey zk g
      in if turn g = Black then h3 XOR SIDE_KEY zk else h3)"

subsection \<open>Board edits\<close>

definition set_piece :: "zobrist \<Rightarrow> int \<Rightarrow> piece \<Rightarrow> game \<Rightarrow> game" where
  "set_piece zk sq p g =
     (let g1 = g\<lparr>hash := hash g XOR pieceKey zk g sq\<rparr>;
          g2 = g1\<lparr>board := (board g1)(sq := Some p)\<rparr>
      in g2\<lparr>hash := hash g2 XOR pieceKey zk g2 sq\<rparr>)"

definition clear_square :: "zobrist \<Rightarrow> int \<Rightarrow> game \<Rightarrow> game" where
  "clear_square zk sq g =
     (let g1 = g\<lparr>hash := hash g XOR pieceKey zk g sq\<rparr>
      in g1\<lparr>board := (board g1)(sq := None)\<rparr>)"

definition movePiece :: "zobrist \<Rightarrow> int \<Rightarrow> int \<Rightarrow> game \<Rightarrow> game" where
  "movePiece zk src dst g =
     (let g1 = g\<lparr>hash := hash g XOR pieceKey zk g src\<rparr>;
          g2 = g1\<lparr>board := (board g1)(dst := board g1 src)\<rparr>;
          g3 = g2\<lparr>board := (board g2)(src := None)\<rparr>
      in g3\<lparr>hash := hash g3 XOR pieceKey zk g3 dst\<rparr>)"

definition has_piece :: "game \<Rightarrow> int \<Rightarrow> color \<Rightarrow> ptype \<Rightarrow> bool" where
  "has_piece g sq c t = (board g sq = Some (Piece c t))"

definition updateCastlingRights :: "zobrist \<Rightarrow> game \<Rightarrow> game" where
  "updateCastlingRights zk g =
     (let g1 = g\<lparr>hash := hash g XOR castlingKey zk g\<rparr>;
          whiteKingInPlace = has_piece g1 sq_e1 White King;
          blackKingInPlace = has_piece g1 sq_e8 Black King;
          w1 = (if \<not> whiteKingInPlace \<or> \<not> has_piece g1 sq_a1 White Rook
                then castling g1 White AND NOT QSIDE_CASTLE else castling g1 White);
          w2 = (if \<not> whiteKingInPlace \<or> \<not> has_piece g1 sq_h1 White Rook
                then w1 AND NOT KSIDE_CASTLE else w1);
          b1 = (if \<not> blackKingInPlace \<or> \<not> has_piece g1 sq_a8 Black Rook
                then castling g1 Black AND NOT QSIDE_CASTLE else castling g1 Black);
          b2 = (if \<not> blackKingInPlace \<or> \<not> has_piece g1 sq_h8 Black Rook
                then b1 AND NOT KSIDE_CASTLE else b1);
          g2 = g1\<lparr>castling := (\<lambda>c. if c = White then w2 else b2)\<rparr>
      in g2\<lparr>hash := hash g2 XOR castlingKey zk g2\<rparr>)"

section \<open>FEN: reading, validating, writing\<close>

text \<open>\<open>s.split(/\s+/)\<close>: a run of white space separates; a leading or trailing run leaves an
  empty first or last piece.\<close>

function split_ws :: "string \<Rightarrow> string list" where
  "split_ws [] = [[]]"
| "split_ws (c # cs) =
     (if is_space c then [] # split_ws (dropWhile is_space cs)
      else (case split_ws cs of [] \<Rightarrow> [[c]] | l # ls \<Rightarrow> (c # l) # ls))"
  by pat_completeness auto
termination
  by (relation "measure length") (auto simp: length_dropWhile_le le_imp_less_Suc)

fun join_sp :: "string list \<Rightarrow> string" where
  "join_sp [] = []"
| "join_sp [x] = x"
| "join_sp (x # y # zs) = x @ '' '' @ join_sp (y # zs)"

text \<open>
  \<open>parseInt(s, 10)\<close> on a token: an optional sign, then the longest run of digits, whatever
  follows; \<open>None\<close> is \<open>NaN\<close>.
\<close>

definition digits_value :: "string \<Rightarrow> nat" where
  "digits_value ds = foldl (\<lambda>a c. 10 * a + digit_value c) 0 ds"

definition parseInt :: "string \<Rightarrow> int option" where
  "parseInt s =
     (let neg = (s \<noteq> [] \<and> hd s = CHR ''-'');
          body = (if s \<noteq> [] \<and> (hd s = CHR ''-'' \<or> hd s = CHR ''+'') then tl s else s);
          ds = takeWhile isDigit body
      in if ds = [] then None
         else Some (if neg then - int (digits_value ds) else int (digits_value ds)))"

text \<open>The decimal text of a number, as string concatenation and \<open>join\<close> produce it.\<close>

function show_nat :: "nat \<Rightarrow> string" where
  "show_nat n = (if n < 10 then [char_of (48 + n)] else show_nat (n div 10) @ [char_of (48 + n mod 10)])"
  by pat_completeness auto
termination
  by (relation "measure id") auto

declare show_nat.simps [simp del]

definition show_int :: "int \<Rightarrow> string" where
  "show_int i = (if i < 0 then ''-'' @ show_nat (nat (- i)) else show_nat (nat i))"

subsection \<open>validateFen (chessPGN.ts)\<close>

text \<open>One rank of the placement field, criterion 8: \<open>None\<close> when it is valid.\<close>

fun check_row :: "string \<Rightarrow> nat \<Rightarrow> bool \<Rightarrow> string option" where
  "check_row [] sumFields previousWasNumber =
     (if sumFields \<noteq> 8 then Some ''Invalid FEN: piece data is invalid (too many squares in rank)''
      else None)"
| "check_row (c # cs) sumFields previousWasNumber =
     (if isDigit c
      then (if previousWasNumber
            then Some ''Invalid FEN: piece data is invalid (consecutive number)''
            else check_row cs (sumFields + digit_value c) True)
      else (if c \<notin> set ''prnbqkPRNBQK''
            then Some ''Invalid FEN: piece data is invalid (invalid piece)''
            else check_row cs (sumFields + 1) False))"

fun check_rows :: "string list \<Rightarrow> string option" where
  "check_rows [] = None"
| "check_rows (r # rs) = (case check_row r 0 False of Some e \<Rightarrow> Some e | None \<Rightarrow> check_rows rs)"

definition ep_field_ok :: "string \<Rightarrow> bool" where
  "ep_field_ok t =
     (t = ''-'' \<or> (case t of [f, r] \<Rightarrow> f \<in> set ''abcdefgh'' \<and> (r = CHR ''3'' \<or> r = CHR ''6'')
                   | _ \<Rightarrow> False))"

definition count_char :: "char \<Rightarrow> string \<Rightarrow> nat" where
  "count_char c s = length (filter (\<lambda>x. x = c) s)"

definition validateFen :: "string \<Rightarrow> string option" where
  "validateFen fen =
     (let tokens = split_ws fen
      in if length tokens \<noteq> 6
         then Some ''Invalid FEN: must contain six space-delimited fields''
         else if (case parseInt (tokens ! 5) of None \<Rightarrow> True | Some n \<Rightarrow> n \<le> 0)
         then Some ''Invalid FEN: move number must be a positive integer''
         else if (case parseInt (tokens ! 4) of None \<Rightarrow> True | Some n \<Rightarrow> n < 0)
         then Some ''Invalid FEN: half move counter number must be a non-negative integer''
         else if \<not> ep_field_ok (tokens ! 3)
         then Some ''Invalid FEN: en-passant square is invalid''
         else if \<exists>c \<in> set (tokens ! 2). c \<notin> set ''kKqQ-''
         then Some ''Invalid FEN: castling availability is invalid''
         else if tokens ! 1 \<noteq> ''w'' \<and> tokens ! 1 \<noteq> ''b''
         then Some ''Invalid FEN: side-to-move is invalid''
         else (let rows = split_on CHR ''/'' (tokens ! 0)
               in if length rows \<noteq> 8
                  then Some (''Invalid FEN: piece data does not contain 8 '' @ [SQ] @ ''/'' @ [SQ]
                             @ ''-delimited rows'')
                  else (case check_rows rows of
                          Some e \<Rightarrow> Some e
                        | None \<Rightarrow>
                            if (char_at (tokens ! 3) 1 = ''3'' \<and> tokens ! 1 = ''w'')
                               \<or> (char_at (tokens ! 3) 1 = ''6'' \<and> tokens ! 1 = ''b'')
                            then Some ''Invalid FEN: illegal en-passant square''
                            else if count_char CHR ''K'' (tokens ! 0) = 0
                            then Some ''Invalid FEN: missing white king''
                            else if count_char CHR ''K'' (tokens ! 0) > 1
                            then Some ''Invalid FEN: too many white kings''
                            else if count_char CHR ''k'' (tokens ! 0) = 0
                            then Some ''Invalid FEN: missing black king''
                            else if count_char CHR ''k'' (tokens ! 0) > 1
                            then Some ''Invalid FEN: too many black kings''
                            else if \<exists>c \<in> set (rows ! 0 @ rows ! 7). toUpperCase c = CHR ''P''
                            then Some ''Invalid FEN: some pawns are on the edge rows''
                            else None)))"

subsection \<open>Game.load\<close>

text \<open>
  Reading the placement field, character by character. A letter that is not a piece letter
  makes \<open>_pieceKey\<close> index \<open>PIECE_KEYS\<close> by \<open>undefined\<close>, and a square index outside the
  key table makes the key \<open>undefined\<close>: \<open>_set\<close> raises a \<open>TypeError\<close> in both cases.
\<close>

definition TypeError :: jserror where
  "TypeError = Error ''TypeError'' None"

fun place_pieces :: "zobrist \<Rightarrow> string \<Rightarrow> int \<Rightarrow> game \<Rightarrow> jserror + game" where
  "place_pieces zk [] square g = Inr g"
| "place_pieces zk (c # cs) square g =
     (if c = CHR ''/'' then place_pieces zk cs (square + 8) g
      else if isDigit c then place_pieces zk cs (square + int (digit_value c)) g
      else (case letter_ptype (toLowerCase c) of
              None \<Rightarrow> Inl TypeError
            | Some t \<Rightarrow>
                if square \<ge> 128 then Inl TypeError
                else (let col = (if (of_char c :: nat) < 97 then White else Black);
                          g1 = set_piece zk square (Piece col t) g;
                          g2 = (if t = King then g1\<lparr>kings := (kings g1)(col := square)\<rparr> else g1)
                      in place_pieces zk cs (square + 1) g2)))"

text \<open>The tokens after the autofill of omitted trailing fields.\<close>

definition fen_tokens :: "string \<Rightarrow> string list" where
  "fen_tokens fen =
     (let tokens = split_ws fen
      in if length tokens \<ge> 2 \<and> length tokens < 6
         then split_ws (join_sp (tokens @ drop (length tokens - 2) [''-'', ''-'', ''0'', ''1'']))
         else tokens)"

text \<open>
  The counters are JavaScript numbers. A double holds every integer up to \<open>2^53\<close> in
  magnitude exactly, and \<open>2^53 + 1\<close> is again \<open>2^53\<close>; the model keeps the counters in
  that range, where they are integers.
\<close>

definition exact_count :: "int \<Rightarrow> bool" where
  "exact_count n = (- 9007199254740992 \<le> n \<and> n \<le> 9007199254740992)"

text \<open>
  What \<open>load\<close> can end in. The state holds a colour, square indices and integers. A token that
  makes the source store anything else (a side to move other than \<open>w\<close> or \<open>b\<close>, an
  en-passant field that is no square, a counter that reads as \<open>NaN\<close> or as a number beyond
  the exact range) yields \<open>Garbled g\<close>: then the board, the kings, the castling rights, the
  empty history and the empty position count are those of \<open>g\<close>, and the side to move, the
  en-passant squares, the counters and the hash are outside the model. The half-built
  position a \<open>TypeError\<close> leaves behind is outside the model as well.
\<close>

datatype load_result = Loaded game | LoadRaises jserror | Garbled game

definition clear_position :: "game \<Rightarrow> game" where
  "clear_position g =
     g\<lparr>board := (\<lambda>i. None), kings := (\<lambda>c. EMPTY), turn := White, castling := (\<lambda>c. 0),
       epSquare := EMPTY, fenEpSquare := EMPTY, halfMoves := 0, moveNumber := 1, history := []\<rparr>"

definition game_load :: "zobrist \<Rightarrow> string \<Rightarrow> game \<Rightarrow> load_result" where
  "game_load zk fen g =
     (let tokens = fen_tokens fen;
          g0 = clear_position g;
          g1 = g0\<lparr>hash := computeHash zk g0, positionCount := Map.empty\<rparr>
      in case place_pieces zk (tokens ! 0) 0 g1 of
           Inl e \<Rightarrow> LoadRaises e
         | Inr g2 \<Rightarrow>
             if length tokens < 3 then LoadRaises TypeError
             else
               (let sideOk = (tokens ! 1 = ''w'' \<or> tokens ! 1 = ''b'');
                    g3 = (if sideOk then g2\<lparr>turn := (if tokens ! 1 = ''w'' then White else Black)\<rparr>
                          else g2);
                    w = (if CHR ''K'' \<in> set (tokens ! 2) then KSIDE_CASTLE else 0)
                        OR (if CHR ''Q'' \<in> set (tokens ! 2) then QSIDE_CASTLE else 0);
                    b = (if CHR ''k'' \<in> set (tokens ! 2) then KSIDE_CASTLE else 0)
                        OR (if CHR ''q'' \<in> set (tokens ! 2) then QSIDE_CASTLE else 0);
                    g4 = updateCastlingRights zk
                           (g3\<lparr>castling := (\<lambda>c. if c = White then w else b)\<rparr>)
                in if \<not> sideOk \<or> length tokens < 6 then Garbled g4
                   else (case (if tokens ! 3 = ''-'' then Some EMPTY else Ox88 (tokens ! 3),
                               parseInt (tokens ! 4), parseInt (tokens ! 5)) of
                           (Some ep, Some hm, Some mn) \<Rightarrow>
                             if exact_count hm \<and> exact_count mn
                             then (let g5 = g4\<lparr>epSquare := ep, fenEpSquare := ep, halfMoves := hm,
                                               moveNumber := mn\<rparr>
                                   in Loaded (g5\<lparr>hash := computeHash zk g5\<rparr>))
                             else Garbled g4
                         | _ \<Rightarrow> Garbled g4)))"

subsection \<open>Game.fen\<close>

definition piece_letter :: "piece \<Rightarrow> char" where
  "piece_letter p =
     (if pcolor p = White then toUpperCase (ptype_letter (ptype p))
      else toLowerCase (ptype_letter (ptype p)))"

text \<open>The loop over the squares that writes the placement field, from square \<open>i\<close> on with
  \<open>nEmpty\<close> empty squares pending (the counter \<open>empty\<close>).\<close>

function fen_board :: "(int \<Rightarrow> piece option) \<Rightarrow> int \<Rightarrow> nat \<Rightarrow> string" where
  "fen_board b i nEmpty =
     (if i > 119 then []
      else (let out = (case b i of
                         Some p \<Rightarrow> (if nEmpty > 0 then show_nat nEmpty else []) @ [piece_letter p]
                       | None \<Rightarrow> []);
                nEmpty1 = (case b i of Some p \<Rightarrow> 0 | None \<Rightarrow> nEmpty + 1)
            in if off_board (i + 1)
               then out @ (if nEmpty1 > 0 then show_nat nEmpty1 else [])
                        @ (if i \<noteq> sq_h1 then ''/'' else []) @ fen_board b (i + 9) 0
               else out @ fen_board b (i + 1) nEmpty1))"
  by pat_completeness auto
termination
  by (relation "measure (\<lambda>(b, i, e). nat (120 - i))") auto

declare fen_board.simps [simp del]

definition fen_castling :: "game \<Rightarrow> string" where
  "fen_castling g =
     (let s = (if castling g White AND KSIDE_CASTLE \<noteq> 0 then ''K'' else [])
              @ (if castling g White AND QSIDE_CASTLE \<noteq> 0 then ''Q'' else [])
              @ (if castling g Black AND KSIDE_CASTLE \<noteq> 0 then ''k'' else [])
              @ (if castling g Black AND QSIDE_CASTLE \<noteq> 0 then ''q'' else [])
      in if s = [] then ''-'' else s)"

definition color_letter :: "color \<Rightarrow> string" where
  "color_letter c = (if c = White then ''w'' else ''b'')"

text \<open>\<open>fen({forceEnpassantSquare: true})\<close>: the branch that prints \<open>_fenEpSquare\<close> as it is.\<close>

definition fen_forced :: "game \<Rightarrow> string" where
  "fen_forced g =
     join_sp [fen_board (board g) 0 0, color_letter (turn g), fen_castling g,
              (if fenEpSquare g \<noteq> EMPTY then algebraic (fenEpSquare g) else ''-''),
              show_int (halfMoves g), show_int (moveNumber g)]"

subsection \<open>ChessPGN.load\<close>

definition DEFAULT_POSITION :: string where
  "DEFAULT_POSITION = ''rnbqkbnr/pppppppp/8/8/8/8/PPPPPPPP/RNBQKBNR w KQkq - 0 1''"

definition SEVEN_TAG_ROSTER :: "(string \<times> string option) list" where
  "SEVEN_TAG_ROSTER =
     [(''Event'', Some ''?''), (''Site'', Some ''?''), (''Date'', Some ''????.??.??''),
      (''Round'', Some ''?''), (''White'', Some ''?''), (''Black'', Some ''?''),
      (''Result'', Some ''*'')]"

definition SUPLEMENTAL_TAGS :: "(string \<times> string option) list" where
  "SUPLEMENTAL_TAGS =
     map (\<lambda>k. (k, None))
       [''WhiteTitle'', ''BlackTitle'', ''WhiteElo'', ''BlackElo'', ''WhiteUSCF'', ''BlackUSCF'',
        ''WhiteNA'', ''BlackNA'', ''WhiteType'', ''BlackType'', ''EventDate'', ''EventSponsor'',
        ''Section'', ''Stage'', ''Board'', ''Opening'', ''Variation'', ''SubVariation'', ''ECO'',
        ''NIC'', ''Time'', ''UTCTime'', ''UTCDate'', ''TimeControl'', ''SetUp'', ''FEN'',
        ''Termination'', ''Annotator'', ''Mode'', ''PlyCount'']"

definition HEADER_TEMPLATE :: "(string \<times> string option) list" where
  "HEADER_TEMPLATE = SEVEN_TAG_ROSTER @ SUPLEMENTAL_TAGS"

text \<open>\<open>header[key] = value\<close> on an object: an existing key keeps its place.\<close>

fun header_set :: "string \<Rightarrow> string option \<Rightarrow> (string \<times> string option) list \<Rightarrow> (string \<times> string option) list" where
  "header_set k v [] = [(k, v)]"
| "header_set k v ((k', v') # kvs) =
     (if k = k' then (k, v) # kvs else (k', v') # header_set k v kvs)"

definition updateSetup :: "string \<Rightarrow> game \<Rightarrow> game" where
  "updateSetup fen g =
     (if history g \<noteq> [] then g
      else if fen \<noteq> DEFAULT_POSITION
      then g\<lparr>header := header_set ''FEN'' (Some fen) (header_set ''SetUp'' (Some ''1'') (header g))\<rparr>
      else g\<lparr>header := header_set ''FEN'' None (header_set ''SetUp'' None (header g))\<rparr>)"

definition getPositionCount :: "game \<Rightarrow> 64 word \<Rightarrow> int" where
  "getPositionCount g h = (case positionCount g h of None \<Rightarrow> 0 | Some n \<Rightarrow> n)"

definition incPositionCount :: "game \<Rightarrow> game" where
  "incPositionCount g = g\<lparr>positionCount := (positionCount g)(hash g \<mapsto> getPositionCount g (hash g) + 1)\<rparr>"

definition isThreefoldRepetition :: "game \<Rightarrow> bool" where
  "isThreefoldRepetition g = (getPositionCount g (hash g) \<ge> 3)"

text \<open>
  \<open>ChessPGN.load(fen, {skipValidation, preserveHeaders})\<close>: the result (\<open>Inl\<close> the error
  thrown) and what is known of the underlying game afterwards: the whole state; or, after a
  garbled load, a state \<open>g\<close> of which the board, the kings, the castling rights and the
  history are meant (\<open>Partly g\<close>); or nothing, when \<open>Game.load\<close> itself has thrown.
\<close>

datatype state_after = Whole game | Partly game | Unknown

definition chess_load ::
  "zobrist \<Rightarrow> string \<Rightarrow> bool \<Rightarrow> bool \<Rightarrow> game \<Rightarrow> (jserror + unit) \<times> state_after" where
  "chess_load zk fen skipValidation preserveHeaders g =
     (let verdict = (if skipValidation then None else validateFen fen)
      in case game_load zk fen g of
           LoadRaises e \<Rightarrow> (Inl e, Unknown)
         | Garbled g1 \<Rightarrow>
             (case verdict of
                Some msg \<Rightarrow> (Inl (Error msg None), Partly g1)
              | None \<Rightarrow> (Inr (), Partly g1))
         | Loaded g1 \<Rightarrow>
             (case verdict of
                Some msg \<Rightarrow> (Inl (Error msg None), Whole g1)
              | None \<Rightarrow>
                  (let g2 = (if preserveHeaders then g1 else g1\<lparr>header := HEADER_TEMPLATE\<rparr>)
                   in (Inr (), Whole (incPositionCount (updateSetup fen g2))))))"

subsection \<open>Constructors\<close>

text \<open>
  The field initialisers of \<open>Game\<close>. The board of the fresh \<open>Position\<close> holds the starting
  position, but the first statement of the constructor is a \<open>load\<close>, which clears it.
\<close>

definition game_init :: game where
  "game_init =
     \<lparr>board = (\<lambda>i. None), turn = White, kings = (\<lambda>c. EMPTY), castling = (\<lambda>c. 0),
      epSquare = -1, fenEpSquare = -1, halfMoves = 0, moveNumber = 0, hash = 0, history = [],
      positionCount = Map.empty, header = []\<rparr>"

text \<open>
  \<open>new Game()\<close>, without headers and move tree: the starting position is loaded and the
  header template installed. The load of the starting position always succeeds
  (lemma \<open>game_load_default\<close>), so the second branch is never taken.
\<close>

definition new_Game :: "zobrist \<Rightarrow> game" where
  "new_Game zk =
     (case game_load zk DEFAULT_POSITION game_init of
        Loaded g \<Rightarrow> g\<lparr>header := HEADER_TEMPLATE\<rparr>
      | _ \<Rightarrow> game_init)"

text \<open>\<open>new ChessPGN(fen, {skipValidation})\<close>: a new \<open>Game\<close>, then \<open>load\<close>.\<close>

definition new_ChessPGN :: "zobrist \<Rightarrow> string \<Rightarrow> bool \<Rightarrow> (jserror + unit) \<times> state_after" where
  "new_ChessPGN zk fen skipValidation = chess_load zk fen skipValidation False (new_Game zk)"

text \<open>A key table to run the model on: any table will do where a claim is about all tables.\<close>

definition demo_keys :: zobrist where
  "demo_keys =
     \<lparr>PIECE_KEYS = (\<lambda>c t i. word_of_int (1000 * (if c = White then 1 else 2)
                                          + 100 * (case t of Pawn \<Rightarrow> 1 | Knight \<Rightarrow> 2 | Bishop \<Rightarrow> 3
                                                   | Rook \<Rightarrow> 4 | Queen \<Rightarrow> 5 | King \<Rightarrow> 6)) + word_of_int i),
      EP_KEYS = (\<lambda>i. word_of_int (5000 + i)),
      CASTLING_KEYS = (\<lambda>i. word_of_int (6000 + i)),
      SIDE_KEY = 7777\<rparr>"

text \<open>Fields as \<open>split\<close> yields them from a text without leading or trailing white space:
  none is empty and none contains white space.\<close>

definition clean_tokens :: "string list \<Rightarrow> bool" where
  "clean_tokens ts = (\<forall>t \<in> set ts. t \<noteq> [] \<and> (\<forall>c \<in> set t. \<not> is_space c))"


text \<open>Three texts to run \<open>load\<close> on: the starting position without its two counters, a
  position with a white pawn on the eighth rank, and one whose side to move is no colour.\<close>

definition short_fen :: string where
  "short_fen = ''rnbqkbnr/pppppppp/8/8/8/8/PPPPPPPP/RNBQKBNR w KQkq -''"

definition edge_pawn_fen :: string where
  "edge_pawn_fen = ''P3k3/8/8/8/8/8/8/4K3 w - - 0 1''"

definition bad_side_fen :: string where
  "bad_side_fen = ''4k3/8/8/8/8/8/8/4K3 x - - 0 1''"

subsection \<open>Canonical FEN fields\<close>

text \<open>The board the placement loop of \<open>load\<close> builds, without the bookkeeping of hash and
  kings: the same loop on the board alone.\<close>

fun place_board :: "string \<Rightarrow> int \<Rightarrow> (int \<Rightarrow> piece option) \<Rightarrow> (int \<Rightarrow> piece option)" where
  "place_board [] square b = b"
| "place_board (c # cs) square b =
     (if c = CHR ''/'' then place_board cs (square + 8) b
      else if isDigit c then place_board cs (square + int (digit_value c)) b
      else (case letter_ptype (toLowerCase c) of
              None \<Rightarrow> b
            | Some t \<Rightarrow>
                place_board cs (square + 1)
                  (b(square := Some (Piece (if (of_char c :: nat) < 97 then White else Black) t)))))"

definition placement_board :: "string \<Rightarrow> int \<Rightarrow> piece option" where
  "placement_board p = place_board p 0 (\<lambda>i. None)"

text \<open>The castling field as \<open>fen\<close> writes it: the rights in the order K, Q, k, q, or a dash.\<close>

definition castling_text :: "bool \<Rightarrow> bool \<Rightarrow> bool \<Rightarrow> bool \<Rightarrow> string" where
  "castling_text wk wq bk bq =
     (let s = (if wk then ''K'' else []) @ (if wq then ''Q'' else [])
              @ (if bk then ''k'' else []) @ (if bq then ''q'' else [])
      in if s = [] then ''-'' else s)"

definition canonical_castling :: "string \<Rightarrow> bool" where
  "canonical_castling t =
     (t = castling_text (CHR ''K'' \<in> set t) (CHR ''Q'' \<in> set t) (CHR ''k'' \<in> set t)
            (CHR ''q'' \<in> set t))"

text \<open>Every right the field names has its king and its rook on their home squares.\<close>

definition rights_in_place :: "(int \<Rightarrow> piece option) \<Rightarrow> string \<Rightarrow> bool" where
  "rights_in_place b t =
     ((CHR ''K'' \<in> set t \<longrightarrow> b sq_e1 = Some (Piece White King) \<and> b sq_h1 = Some (Piece White Rook))
      \<and> (CHR ''Q'' \<in> set t \<longrightarrow> b sq_e1 = Some (Piece White King) \<and> b sq_a1 = Some (Piece White Rook))
      \<and> (CHR ''k'' \<in> set t \<longrightarrow> b sq_e8 = Some (Piece Black King) \<and> b sq_h8 = Some (Piece Black Rook))
      \<and> (CHR ''q'' \<in> set t \<longrightarrow> b sq_e8 = Some (Piece Black King) \<and> b sq_a8 = Some (Piece Black Rook)))"

text \<open>
  A counter in canonical decimal form: digits only, no leading zero, and at most fifteen
  digits, so that the number is one a JavaScript number holds exactly.
\<close>

definition canonical_number :: "string \<Rightarrow> bool" where
  "canonical_number s =
     (s \<noteq> [] \<and> (\<forall>c \<in> set s. isDigit c) \<and> (hd s = CHR ''0'' \<longrightarrow> s = ''0'') \<and> length s \<le> 15)"

text \<open>
  The shape of a placement field that criteria 7 and 8 of the validator accept, read from
  column \<open>col\<close> of rank \<open>row\<close> on; \<open>prev\<close> tells whether the character before was a digit.
\<close>

fun placement_ok :: "string \<Rightarrow> nat \<Rightarrow> nat \<Rightarrow> bool \<Rightarrow> bool" where
  "placement_ok [] col row prev = (col = 8 \<and> row = 7)"
| "placement_ok (c # cs) col row prev =
     (if c = CHR ''/'' then col = 8 \<and> row < 7 \<and> placement_ok cs 0 (row + 1) False
      else if isDigit c
      then \<not> prev \<and> col + digit_value c \<le> 8 \<and> placement_ok cs (col + digit_value c) row True
      else c \<in> set ''prnbqkPRNBQK'' \<and> col < 8 \<and> placement_ok cs (col + 1) row False)"

text \<open>The loop of \<open>fen\<close> over the squares, told by rank and column: column 8 is the end of a
  rank, where the pending count and the slash are written.\<close>

function fen_rows :: "(int \<Rightarrow> piece option) \<Rightarrow> nat \<Rightarrow> nat \<Rightarrow> nat \<Rightarrow> string" where
  "fen_rows b row col n =
     (if row > 7 then []
      else if col \<ge> 8
      then (if n > 0 then show_nat n else []) @ (if row < 7 then ''/'' else [])
           @ fen_rows b (row + 1) 0 0
      else (case b (16 * int row + int col) of
              Some p \<Rightarrow> (if n > 0 then show_nat n else []) @ [piece_letter p] @ fen_rows b row (col + 1) 0
            | None \<Rightarrow> fen_rows b row (col + 1) (n + 1)))"
  by pat_completeness auto
termination
  by (relation "measure (\<lambda>(b, row, col, n). (8 - row) * 9 + (8 - col))") auto

declare fen_rows.simps [simp del]

text \<open>A valid FEN whose castling field names rights the position does not have.\<close>

definition bare_kings_fen :: string where
  "bare_kings_fen = ''4k3/8/8/8/8/8/8/4K3 w KQkq - 0 1''"

text \<open>The castling bits of one colour, as \<open>load\<close> sets them from the castling field.\<close>

definition castling_bits :: "bool \<Rightarrow> bool \<Rightarrow> int" where
  "castling_bits k q = (if k then KSIDE_CASTLE else 0) OR (if q then QSIDE_CASTLE else 0)"


section \<open>Making and unmaking moves (Game.ts)\<close>

text \<open>
  Modelled from the spec: the move tables of types.ts (section 4.1): the pawn offsets per
  colour (single push, double push, two capture diagonals), the step sets of the other
  pieces, the second rank of each colour, the rook home squares with their castling flag, and
  the promotion pieces (section 4.3 lists queen, rook, bishop, knight).
\<close>

definition PAWN_OFFSETS :: "color \<Rightarrow> int list" where
  "PAWN_OFFSETS c = (if c = Black then [16, 32, 17, 15] else [-16, -32, -17, -15])"

definition PIECE_OFFSETS :: "ptype \<Rightarrow> int list" where
  "PIECE_OFFSETS t =
     (case t of
        Knight \<Rightarrow> [-18, -33, -31, -14, 18, 33, 31, 14]
      | Bishop \<Rightarrow> [-17, -15, 17, 15]
      | Rook \<Rightarrow> [-16, 1, 16, -1]
      | Queen \<Rightarrow> [-17, -16, -15, 1, 17, 16, 15, -1]
      | King \<Rightarrow> [-17, -16, -15, 1, 17, 16, 15, -1]
      | Pawn \<Rightarrow> [])"

definition SECOND_RANK :: "color \<Rightarrow> int" where
  "SECOND_RANK c = (if c = Black then 1 else 6)"

definition ROOKS :: "color \<Rightarrow> (int \<times> int) list" where
  "ROOKS c =
     (if c = White then [(sq_a1, QSIDE_CASTLE), (sq_h1, KSIDE_CASTLE)]
      else [(sq_a8, QSIDE_CASTLE), (sq_h8, KSIDE_CASTLE)])"

definition PROMOTIONS :: "ptype list" where
  "PROMOTIONS = [Queen, Rook, Bishop, Knight]"

definition push :: "move \<Rightarrow> game \<Rightarrow> game" where
  "push m g =
     g\<lparr>history :=
         (m, \<lparr>s_kings = kings g, s_turn = turn g, s_castling = castling g,
              s_epSquare = epSquare g, s_fenEpSquare = fenEpSquare g,
              s_halfMoves = halfMoves g, s_moveNumber = moveNumber g\<rparr>) # history g\<rparr>"

text \<open>The loops over \<open>ROOKS[c]\<close>: the first rook whose square and flag match loses its flag.\<close>

fun rook_off :: "int \<Rightarrow> (int \<times> int) list \<Rightarrow> int \<Rightarrow> int" where
  "rook_off sq [] c = c"
| "rook_off sq ((rsq, fl) # rs) c =
     (if sq = rsq \<and> c AND fl \<noteq> 0 then c XOR fl else rook_off sq rs c)"

text \<open>\<open>n++\<close> on a counter: exact below \<open>2^53\<close>, where the next integer is no double and the
  sum is rounded back.\<close>

definition js_succ :: "int \<Rightarrow> int" where
  "js_succ n = (if n < 9007199254740992 then n + 1 else n)"

text \<open>The null-move branch of \<open>_makeMove\<close>: it returns before any hash update.\<close>

definition make_null :: "game \<Rightarrow> game" where
  "make_null g =
     (let us = turn g;
          g1 = (if us = Black then g\<lparr>moveNumber := js_succ (moveNumber g)\<rparr> else g);
          g2 = g1\<lparr>halfMoves := js_succ (halfMoves g1)\<rparr>;
          g3 = g2\<lparr>turn := swapColor us\<rparr>
      in g3\<lparr>epSquare := EMPTY\<rparr>)"

text \<open>The board edits of \<open>_makeMove\<close>: hash keys out, the piece moved, the en-passant victim
  removed, the promoted piece put in place.\<close>

definition make_board :: "zobrist \<Rightarrow> move \<Rightarrow> game \<Rightarrow> game" where
  "make_board zk m g =
     (let us = turn g;
          g1 = g\<lparr>hash := hash g XOR epKey zk g\<rparr>;
          g2 = g1\<lparr>hash := hash g1 XOR castlingKey zk g1\<rparr>;
          g3 = (if captured m \<noteq> None then g2\<lparr>hash := hash g2 XOR pieceKey zk g2 (mto m)\<rparr> else g2);
          g4 = movePiece zk (mfrom m) (mto m) g3;
          g5 = (if flags m AND EP_CAPTURE \<noteq> 0
                then (if turn g4 = Black then clear_square zk (mto m - 16) g4
                      else clear_square zk (mto m + 16) g4)
                else g4)
      in case promotion m of
           None \<Rightarrow> g5
         | Some t \<Rightarrow> set_piece zk (mto m) (Piece us t) (clear_square zk (mto m) g5))"

text \<open>The rest of \<open>_makeMove\<close>, once \<open>_board[move.to]\<close> is known to hold the piece \<open>p\<close>:
  the king and its rook, then the castling rights.\<close>

definition move_king :: "zobrist \<Rightarrow> move \<Rightarrow> piece \<Rightarrow> game \<Rightarrow> game" where
  "move_king zk m p g =
     (if ptype p = King
      then (let us = turn g;
                k1 = g\<lparr>kings := (kings g)(us := mto m)\<rparr>;
                k2 = (if flags m AND KSIDE_CASTLE \<noteq> 0
                      then movePiece zk (mto m + 1) (mto m - 1) k1
                      else if flags m AND QSIDE_CASTLE \<noteq> 0
                      then movePiece zk (mto m - 2) (mto m + 1) k1
                      else k1)
            in k2\<lparr>castling := (castling k2)(us := 0)\<rparr>)
      else g)"

definition make_rights :: "zobrist \<Rightarrow> move \<Rightarrow> piece \<Rightarrow> game \<Rightarrow> game" where
  "make_rights zk m p g =
     (let us = turn g; them = swapColor us;
          g1 = move_king zk m p g;
          g2 = (if castling g1 us \<noteq> 0
                then g1\<lparr>castling := (castling g1)(us := rook_off (mfrom m) (ROOKS us) (castling g1 us))\<rparr>
                else g1);
          g3 = (if castling g2 them \<noteq> 0
                then g2\<lparr>castling := (castling g2)(them := rook_off (mto m) (ROOKS them) (castling g2 them))\<rparr>
                else g2)
      in g3\<lparr>hash := hash g3 XOR castlingKey zk g3\<rparr>)"

definition is_pawn_of :: "game \<Rightarrow> int \<Rightarrow> color \<Rightarrow> bool" where
  "is_pawn_of g sq c = (case board g sq of None \<Rightarrow> False | Some p \<Rightarrow> ptype p = Pawn \<and> pcolor p = c)"

definition make_state :: "zobrist \<Rightarrow> move \<Rightarrow> game \<Rightarrow> game" where
  "make_state zk m g =
     (let us = turn g; them = swapColor us;
          g1 = (if flags m AND BIG_PAWN \<noteq> 0
                then (let ep = (if us = Black then mto m - 16 else mto m + 16);
                          e1 = g\<lparr>fenEpSquare := ep\<rparr>
                      in if (\<not> off_board (mto m - 1) \<and> is_pawn_of e1 (mto m - 1) them)
                            \<or> (\<not> off_board (mto m + 1) \<and> is_pawn_of e1 (mto m + 1) them)
                         then (let e2 = e1\<lparr>epSquare := ep\<rparr>
                               in e2\<lparr>hash := hash e2 XOR epKey zk e2\<rparr>)
                         else e1\<lparr>epSquare := EMPTY\<rparr>)
                else g\<lparr>epSquare := EMPTY, fenEpSquare := EMPTY\<rparr>);
          g2 = (if mpiece m = Pawn then g1\<lparr>halfMoves := 0\<rparr>
                else if flags m AND (CAPTURE OR EP_CAPTURE) \<noteq> 0 then g1\<lparr>halfMoves := 0\<rparr>
                else g1\<lparr>halfMoves := js_succ (halfMoves g1)\<rparr>);
          g3 = (if us = Black then g2\<lparr>moveNumber := js_succ (moveNumber g2)\<rparr> else g2);
          g4 = g3\<lparr>turn := them\<rparr>
      in g4\<lparr>hash := hash g4 XOR SIDE_KEY zk\<rparr>)"

text \<open>
  \<open>_makeMove\<close>. After the board edits the source reads \<open>this._board[move.to].type\<close>; on an
  empty square that raises a \<open>TypeError\<close>, with the edits done.
\<close>

definition makeMove :: "zobrist \<Rightarrow> move \<Rightarrow> game \<Rightarrow> (jserror + unit) \<times> game" where
  "makeMove zk m g =
     (let g0 = push m g
      in if flags m AND NULL_MOVE \<noteq> 0 then (Inr (), make_null g0)
         else (let g1 = make_board zk m g0
               in case board g1 (mto m) of
                    None \<Rightarrow> (Inl TypeError, g1)
                  | Some p \<Rightarrow> (Inr (), make_state zk m (make_rights zk m p g1))))"

text \<open>\<open>_undoMove\<close>: \<open>None\<close> is \<open>null\<close>, the history being empty.\<close>

definition restore :: "snapshot \<Rightarrow> game \<Rightarrow> game" where
  "restore sn g =
     g\<lparr>kings := s_kings sn, turn := s_turn sn, castling := s_castling sn,
       epSquare := s_epSquare sn, fenEpSquare := s_fenEpSquare sn,
       halfMoves := s_halfMoves sn, moveNumber := s_moveNumber sn\<rparr>"

definition undo_board :: "zobrist \<Rightarrow> move \<Rightarrow> game \<Rightarrow> game" where
  "undo_board zk m g =
     (let us = turn g; them = swapColor us;
          g1 = movePiece zk (mto m) (mfrom m) g;
          g2 = set_piece zk (mfrom m) (Piece us (mpiece m)) (clear_square zk (mfrom m) g1);
          g3 = (case captured m of
                  None \<Rightarrow> g2
                | Some t \<Rightarrow>
                    if flags m AND EP_CAPTURE \<noteq> 0
                    then set_piece zk (if us = Black then mto m - 16 else mto m + 16)
                           (Piece them Pawn) g2
                    else set_piece zk (mto m) (Piece them t) g2)
      in if flags m AND (KSIDE_CASTLE OR QSIDE_CASTLE) \<noteq> 0
         then (if flags m AND KSIDE_CASTLE \<noteq> 0
               then movePiece zk (mto m - 1) (mto m + 1) g3
               else movePiece zk (mto m + 1) (mto m - 2) g3)
         else g3)"

definition undoMove :: "zobrist \<Rightarrow> game \<Rightarrow> move option \<times> game" where
  "undoMove zk g =
     (case history g of
        [] \<Rightarrow> (None, g)
      | (m, sn) # rest \<Rightarrow>
          (let g0 = g\<lparr>history := rest\<rparr>;
               g1 = g0\<lparr>hash := hash g0 XOR epKey zk g0\<rparr>;
               g2 = g1\<lparr>hash := hash g1 XOR castlingKey zk g1\<rparr>;
               g3 = restore sn g2;
               g4 = g3\<lparr>hash := hash g3 XOR epKey zk g3\<rparr>;
               g5 = g4\<lparr>hash := hash g4 XOR castlingKey zk g4\<rparr>;
               g6 = g5\<lparr>hash := hash g5 XOR SIDE_KEY zk\<rparr>
           in if flags m AND NULL_MOVE \<noteq> 0 then (Some m, g6)
              else (Some m, undo_board zk m g6)))"

section \<open>Attacks and move generation (Game.ts)\<close>

text \<open>
  Game.ts takes \<open>ATTACKS\<close>, \<open>RAYS\<close> and \<open>PIECE_MASKS\<close> from types.ts; the tables below are the
  copies chessPGN.ts declares. A read outside a table is \<open>undefined\<close>, which \<open>&\<close> takes as 0.
\<close>

definition ATTACKS :: "int list" where
  "ATTACKS =
    [20, 0, 0, 0, 0, 0, 0, 24,  0, 0, 0, 0, 0, 0,20, 0,
      0,20, 0, 0, 0, 0, 0, 24,  0, 0, 0, 0, 0,20, 0, 0,
      0, 0,20, 0, 0, 0, 0, 24,  0, 0, 0, 0,20, 0, 0, 0,
      0, 0, 0,20, 0, 0, 0, 24,  0, 0, 0,20, 0, 0, 0, 0,
      0, 0, 0, 0,20, 0, 0, 24,  0, 0,20, 0, 0, 0, 0, 0,
      0, 0, 0, 0, 0,20, 2, 24,  2,20, 0, 0, 0, 0, 0, 0,
      0, 0, 0, 0, 0, 2,53, 56, 53, 2, 0, 0, 0, 0, 0, 0,
     24,24,24,24,24,24,56,  0, 56,24,24,24,24,24,24, 0,
      0, 0, 0, 0, 0, 2,53, 56, 53, 2, 0, 0, 0, 0, 0, 0,
      0, 0, 0, 0, 0,20, 2, 24,  2,20, 0, 0, 0, 0, 0, 0,
      0, 0, 0, 0,20, 0, 0, 24,  0, 0,20, 0, 0, 0, 0, 0,
      0, 0, 0,20, 0, 0, 0, 24,  0, 0, 0,20, 0, 0, 0, 0,
      0, 0,20, 0, 0, 0, 0, 24,  0, 0, 0, 0,20, 0, 0, 0,
      0,20, 0, 0, 0, 0, 0, 24,  0, 0, 0, 0, 0,20, 0, 0,
     20, 0, 0, 0, 0, 0, 0, 24,  0, 0, 0, 0, 0, 0,20]"

definition RAYS :: "int list" where
  "RAYS =
    [17,  0,  0,  0,  0,  0,  0, 16,  0,  0,  0,  0,  0,  0, 15, 0,
      0, 17,  0,  0,  0,  0,  0, 16,  0,  0,  0,  0,  0, 15,  0, 0,
      0,  0, 17,  0,  0,  0,  0, 16,  0,  0,  0,  0, 15,  0,  0, 0,
      0,  0,  0, 17,  0,  0,  0, 16,  0,  0,  0, 15,  0,  0,  0, 0,
      0,  0,  0,  0, 17,  0,  0, 16,  0,  0, 15,  0,  0,  0,  0, 0,
      0,  0,  0,  0,  0, 17,  0, 16,  0, 15,  0,  0,  0,  0,  0, 0,
      0,  0,  0,  0,  0,  0, 17, 16, 15,  0,  0,  0,  0,  0,  0, 0,
      1,  1,  1,  1,  1,  1,  1,  0, -1, -1,  -1,-1, -1, -1, -1, 0,
      0,  0,  0,  0,  0,  0,-15,-16,-17,  0,  0,  0,  0,  0,  0, 0,
      0,  0,  0,  0,  0,-15,  0,-16,  0,-17,  0,  0,  0,  0,  0, 0,
      0,  0,  0,  0,-15,  0,  0,-16,  0,  0,-17,  0,  0,  0,  0, 0,
      0,  0,  0,-15,  0,  0,  0,-16,  0,  0,  0,-17,  0,  0,  0, 0,
      0,  0,-15,  0,  0,  0,  0,-16,  0,  0,  0,  0,-17,  0,  0, 0,
      0,-15,  0,  0,  0,  0,  0,-16,  0,  0,  0,  0,  0,-17,  0, 0,
    -15,  0,  0,  0,  0,  0,  0,-16,  0,  0,  0,  0,  0,  0,-17]"

definition PIECE_MASKS :: "ptype \<Rightarrow> int" where
  "PIECE_MASKS t =
     (case t of Pawn \<Rightarrow> 1 | Knight \<Rightarrow> 2 | Bishop \<Rightarrow> 4 | Rook \<Rightarrow> 8 | Queen \<Rightarrow> 16 | King \<Rightarrow> 32)"

definition table_at :: "int list \<Rightarrow> int \<Rightarrow> int" where
  "table_at tab i = (if 0 \<le> i \<and> i < int (length tab) then tab ! nat i else 0)"

text \<open>
  The loop \<open>while (j !== square) { if (this._board[j] != null) { blocked = true; break }
  j += offset }\<close>, at most \<open>n\<close> rounds of it; \<open>None\<close> when \<open>n\<close> rounds do not end it.
\<close>

fun ray_blocked :: "nat \<Rightarrow> (int \<Rightarrow> piece option) \<Rightarrow> int \<Rightarrow> int \<Rightarrow> int \<Rightarrow> bool option" where
  "ray_blocked 0 b j off sq = (if j = sq then Some False else None)"
| "ray_blocked (Suc n) b j off sq =
     (if j = sq then Some False
      else if b j \<noteq> None then Some True
      else ray_blocked n b (j + off) off sq)"

text \<open>
  One round of the loop of \<open>_attacked\<close>: does the piece on square \<open>i\<close> attack \<open>square\<close>? A ray
  of the table reaches its target in at most seven steps (lemma \<open>ray_blocked_total\<close>), so
  the \<open>None\<close> branch is never taken.
\<close>

definition attacks_from :: "game \<Rightarrow> color \<Rightarrow> int \<Rightarrow> int \<Rightarrow> bool" where
  "attacks_from g c square i =
     (case board g i of
        None \<Rightarrow> False
      | Some p \<Rightarrow>
          if pcolor p \<noteq> c then False
          else (let difference = i - square
                in if difference = 0 then False
                   else (let index = difference + 119
                         in if table_at ATTACKS index AND PIECE_MASKS (ptype p) \<noteq> 0
                            then (if ptype p = Pawn
                                  then (difference > 0 \<and> pcolor p = White)
                                       \<or> (difference \<le> 0 \<and> pcolor p = Black)
                                  else if ptype p = Knight \<or> ptype p = King then True
                                  else (let offset = table_at RAYS index
                                        in case ray_blocked 7 (board g) (i + offset) offset square of
                                             None \<Rightarrow> False
                                           | Some blocked \<Rightarrow> \<not> blocked))
                            else False)))"

text \<open>\<open>_attacked(color, square)\<close> without \<open>verbose\<close>: true at the first attacker found.\<close>

definition attacked :: "game \<Rightarrow> color \<Rightarrow> int \<Rightarrow> bool" where
  "attacked g c square = list_ex (attacks_from g c square) (squares_from 0)"

definition isKingAttacked :: "game \<Rightarrow> color \<Rightarrow> bool" where
  "isKingAttacked g c =
     (let square = kings g c in if square = -1 then False else attacked g (swapColor c) square)"

definition isCheck :: "game \<Rightarrow> bool" where
  "isCheck g = isKingAttacked g (turn g)"

text \<open>
  Modelled from the spec: \<open>addMove\<close> of types.ts (section 4.3): a pawn that reaches the first
  or the last rank yields one move per promotion piece, flagged \<open>PROMOTION\<close>; any other move
  is appended as it is.
\<close>

definition RANK_1 :: int where "RANK_1 = 7"
definition RANK_8 :: int where "RANK_8 = 0"

definition addMove ::
  "move list \<Rightarrow> color \<Rightarrow> int \<Rightarrow> int \<Rightarrow> ptype \<Rightarrow> ptype option \<Rightarrow> int \<Rightarrow> move list" where
  "addMove moves c src dst t cap fl =
     (let r = rank_of dst
      in if t = Pawn \<and> (r = RANK_1 \<or> r = RANK_8)
         then moves @ map (\<lambda>p. \<lparr>mcolor = c, mfrom = src, mto = dst, mpiece = t, captured = cap,
                                 promotion = Some p, flags = fl OR PROMOTION\<rparr>) PROMOTIONS
         else moves @ [\<lparr>mcolor = c, mfrom = src, mto = dst, mpiece = t, captured = cap,
                        promotion = None, flags = fl\<rparr>])"

text \<open>
  The \<open>piece\<close> option of \<open>_moves\<close>, in lower case: \<open>None\<close> is \<open>undefined\<close>. The tests
  \<open>forPiece && forPiece !== type\<close> let the empty string pass, as it is falsy.
\<close>

definition filter_allows :: "string option \<Rightarrow> ptype \<Rightarrow> bool" where
  "filter_allows forPiece t =
     (case forPiece of None \<Rightarrow> True | Some s \<Rightarrow> s = [] \<or> s = [ptype_letter t])"

definition is_color :: "game \<Rightarrow> int \<Rightarrow> color \<Rightarrow> bool" where
  "is_color g sq c = (case board g sq of None \<Rightarrow> False | Some p \<Rightarrow> pcolor p = c)"

text \<open>The two pawn captures: the round \<open>j\<close> of \<open>for (let j = 2; j < 4; j++)\<close>.\<close>

definition pawn_capture :: "game \<Rightarrow> int \<Rightarrow> nat \<Rightarrow> move list \<Rightarrow> move list" where
  "pawn_capture g src j moves =
     (let us = turn g; them = swapColor us; dst = src + PAWN_OFFSETS us ! j
      in if off_board dst then moves
         else if is_color g dst them
         then addMove moves us src dst Pawn (map_option ptype (board g dst)) CAPTURE
         else if dst = epSquare g
         then addMove moves us src dst Pawn (Some Pawn) EP_CAPTURE
         else moves)"

definition pawn_moves :: "game \<Rightarrow> int \<Rightarrow> move list \<Rightarrow> move list" where
  "pawn_moves g src moves =
     (let us = turn g;
          dst = src + PAWN_OFFSETS us ! 0;
          m1 = (if board g dst = None
                then (let a = addMove moves us src dst Pawn None NORMAL;
                          dst2 = src + PAWN_OFFSETS us ! 1
                      in if SECOND_RANK us = rank_of src \<and> board g dst2 = None
                         then addMove a us src dst2 Pawn None BIG_PAWN
                         else a)
                else moves)
      in pawn_capture g src 3 (pawn_capture g src 2 m1))"

text \<open>
  The loop \<open>while (true) { to += offset; ... }\<close> along one offset, at most \<open>n\<close> rounds of it.
  Eight rounds leave the board from any of its squares (lemma \<open>slide_fuel\<close>).
\<close>

fun slide :: "nat \<Rightarrow> game \<Rightarrow> int \<Rightarrow> ptype \<Rightarrow> int \<Rightarrow> int \<Rightarrow> move list \<Rightarrow> move list" where
  "slide 0 g src t off cur moves = moves"
| "slide (Suc n) g src t off cur moves =
     (let dst = cur + off
      in if off_board dst then moves
         else (case board g dst of
                 None \<Rightarrow>
                   (let a = addMove moves (turn g) src dst t None NORMAL
                    in if t = Knight \<or> t = King then a else slide n g src t off dst a)
               | Some p \<Rightarrow>
                   if pcolor p = turn g then moves
                   else addMove moves (turn g) src dst t (Some (ptype p)) CAPTURE))"

definition piece_moves :: "game \<Rightarrow> int \<Rightarrow> ptype \<Rightarrow> move list \<Rightarrow> move list" where
  "piece_moves g src t moves = fold (\<lambda>off ms. slide 8 g src t off src ms) (PIECE_OFFSETS t) moves"

text \<open>One round of the loop over the squares.\<close>

definition square_moves :: "game \<Rightarrow> string option \<Rightarrow> int \<Rightarrow> move list \<Rightarrow> move list" where
  "square_moves g pf src moves =
     (case board g src of
        None \<Rightarrow> moves
      | Some p \<Rightarrow>
          if pcolor p = swapColor (turn g) then moves
          else if \<not> filter_allows pf (ptype p) then moves
          else if ptype p = Pawn then pawn_moves g src moves
          else piece_moves g src (ptype p) moves)"

definition castling_moves :: "game \<Rightarrow> move list \<Rightarrow> move list" where
  "castling_moves g moves =
     (let us = turn g; them = swapColor us; k = kings g us;
          m1 = (if castling g us AND KSIDE_CASTLE \<noteq> 0
                   \<and> board g (k + 1) = None \<and> board g (k + 2) = None
                   \<and> \<not> attacked g them k \<and> \<not> attacked g them (k + 1) \<and> \<not> attacked g them (k + 2)
                then addMove moves us k (k + 2) King None KSIDE_CASTLE
                else moves)
      in if castling g us AND QSIDE_CASTLE \<noteq> 0
            \<and> board g (k - 1) = None \<and> board g (k - 2) = None \<and> board g (k - 3) = None
            \<and> \<not> attacked g them k \<and> \<not> attacked g them (k - 1) \<and> \<not> attacked g them (k - 2)
         then addMove m1 us k (k - 2) King None QSIDE_CASTLE
         else m1)"

text \<open>
  The pseudo-legal part of \<open>_moves\<close>: \<open>piece\<close> and \<open>sq\<close> are the options \<open>piece\<close> and \<open>square\<close>,
  \<open>None\<close> when absent. The
  result is \<open>None\<close> for the early \<open>return []\<close> on a name that is no square.
\<close>

definition pseudo_moves :: "game \<Rightarrow> string option \<Rightarrow> string option \<Rightarrow> move list option" where
  "pseudo_moves g piece sq =
     (let pf = map_option (map toLowerCase) piece;
          forSquare = (case sq of None \<Rightarrow> None | Some s \<Rightarrow> if s = [] then None else Some (map toLowerCase s))
      in case (case forSquare of
                 None \<Rightarrow> Some (squares_from 0, False, sq_h1)
               | Some name \<Rightarrow> (case Ox88 name of None \<Rightarrow> None | Some i \<Rightarrow> Some ([i], True, i))) of
           None \<Rightarrow> None
         | Some (squares, singleSquare, lastSquare) \<Rightarrow>
             (let moves = fold (square_moves g pf) squares []
              in if (pf = None \<or> pf = Some ''k'')
                    \<and> (\<not> singleSquare \<or> lastSquare = kings g (turn g))
                 then Some (castling_moves g moves)
                 else Some moves))"

subsection \<open>Legal moves\<close>

text \<open>Sequencing of operations that may throw: the first error ends the computation.\<close>

definition bindE ::
  "(jserror + 'a) \<times> game \<Rightarrow> ('a \<Rightarrow> game \<Rightarrow> (jserror + 'b) \<times> game) \<Rightarrow> (jserror + 'b) \<times> game" where
  "bindE r f = (case r of (Inl e, g) \<Rightarrow> (Inl e, g) | (Inr a, g) \<Rightarrow> f a g)"

text \<open>The filter loop of \<open>_moves\<close>: make, test the king of \<open>us\<close>, unmake.\<close>

fun legal_filter ::
  "zobrist \<Rightarrow> color \<Rightarrow> move list \<Rightarrow> move list \<Rightarrow> game \<Rightarrow> (jserror + move list) \<times> game" where
  "legal_filter zk us [] acc g = (Inr acc, g)"
| "legal_filter zk us (m # ms) acc g =
     bindE (makeMove zk m g)
       (\<lambda>_ g1. let ok = \<not> isKingAttacked g1 us; g2 = snd (undoMove zk g1)
                in legal_filter zk us ms (if ok then acc @ [m] else acc) g2)"

definition game_moves ::
  "zobrist \<Rightarrow> bool \<Rightarrow> string option \<Rightarrow> string option \<Rightarrow> game \<Rightarrow> (jserror + move list) \<times> game" where
  "game_moves zk legal piece sq g =
     (case pseudo_moves g piece sq of
        None \<Rightarrow> (Inr [], g)
      | Some moves \<Rightarrow>
          if \<not> legal \<or> kings g (turn g) = -1 then (Inr moves, g)
          else legal_filter zk (turn g) moves [] g)"

section \<open>Standard algebraic notation (Game.ts)\<close>

definition SAN_NULLMOVE :: string where
  "SAN_NULLMOVE = ''--''"

text \<open>\<open>_getDisambiguator\<close>: the three counters, then the choice.\<close>

definition ambiguous_with :: "move \<Rightarrow> move \<Rightarrow> bool" where
  "ambiguous_with m a = (mpiece m = mpiece a \<and> mfrom m \<noteq> mfrom a \<and> mto m = mto a)"

definition getDisambiguator :: "move \<Rightarrow> move list \<Rightarrow> string" where
  "getDisambiguator m moves =
     (let amb = filter (ambiguous_with m) moves;
          ambiguities = length amb;
          sameRank = length (filter (\<lambda>a. rank_of (mfrom m) = rank_of (mfrom a)) amb);
          sameFile = length (filter (\<lambda>a. file_of (mfrom m) = file_of (mfrom a)) amb)
      in if ambiguities > 0
         then (if sameRank > 0 \<and> sameFile > 0 then algebraic (mfrom m)
               else if sameFile > 0 then char_at (algebraic (mfrom m)) 1
               else char_at (algebraic (mfrom m)) 0)
         else [])"

text \<open>\<open>s[0]\<close> appended to a string: the text \<open>undefined\<close> when \<open>s\<close> is empty.\<close>

definition first_char :: "string \<Rightarrow> string" where
  "first_char s = (case s of [] \<Rightarrow> ''undefined'' | c # _ \<Rightarrow> [c])"

text \<open>The text of a move before the check mark is appended.\<close>

definition san_body :: "move \<Rightarrow> move list \<Rightarrow> string" where
  "san_body m moves =
     (if flags m AND KSIDE_CASTLE \<noteq> 0 then ''O-O''
      else if flags m AND QSIDE_CASTLE \<noteq> 0 then ''O-O-O''
      else (let o1 = (if mpiece m \<noteq> Pawn
                      then toUpperCase (ptype_letter (mpiece m)) # getDisambiguator m moves
                      else []);
                o2 = (if flags m AND (CAPTURE OR EP_CAPTURE) \<noteq> 0
                      then o1 @ (if mpiece m = Pawn then first_char (algebraic (mfrom m)) else []) @ ''x''
                      else o1);
                o3 = o2 @ algebraic (mto m)
            in case promotion m of
                 None \<Rightarrow> o3
               | Some p \<Rightarrow> o3 @ ''='' @ [toUpperCase (ptype_letter p)]))"

definition is_null_san :: "move \<Rightarrow> bool" where
  "is_null_san m =
     (flags m AND KSIDE_CASTLE = 0 \<and> flags m AND QSIDE_CASTLE = 0 \<and> flags m AND NULL_MOVE \<noteq> 0)"

text \<open>\<open>_moveToSan\<close>: the move is made, the reply moves are generated to tell check from mate,
  and the move is unmade.\<close>

definition moveToSan :: "zobrist \<Rightarrow> move \<Rightarrow> move list \<Rightarrow> game \<Rightarrow> (jserror + string) \<times> game" where
  "moveToSan zk m moves g =
     (if is_null_san m then (Inr SAN_NULLMOVE, g)
      else bindE (makeMove zk m g)
             (\<lambda>_ g1. bindE (game_moves zk True None None g1)
                (\<lambda>legalMoves g2.
                   let output = san_body m moves;
                       out = (if isKingAttacked g2 (turn g2)
                              then (if isCheck g2 \<and> legalMoves = [] then output @ ''#''
                                    else output @ ''+'')
                              else output)
                   in (Inr out, snd (undoMove zk g2)))))"

subsection \<open>Reading a move\<close>

text \<open>
  \<open>_strippedSan\<close>: the first \<open>=\<close> goes, then the leftmost suffix matching
  \<open>[+#]?[?!]*$\<close>.
\<close>

definition is_annotation :: "string \<Rightarrow> bool" where
  "is_annotation s = (\<forall>c \<in> set s. c = CHR ''?'' \<or> c = CHR ''!'')"

definition decorations :: "string \<Rightarrow> bool" where
  "decorations s =
     (case s of
        [] \<Rightarrow> True
      | c # r \<Rightarrow> ((c = CHR ''+'' \<or> c = CHR ''#'') \<and> is_annotation r) \<or> is_annotation s)"

fun strip_decorations :: "string \<Rightarrow> string" where
  "strip_decorations [] = []"
| "strip_decorations (c # cs) = (if decorations (c # cs) then [] else c # strip_decorations cs)"

definition strippedSan :: "string \<Rightarrow> string" where
  "strippedSan mv = strip_decorations (remove1 (CHR ''='') mv)"

text \<open>The pattern \<open>[a-h]\d.*[a-h]\d\<close> of \<open>_inferPieceType\<close>; the dot matches no line end.\<close>

definition is_file_char :: "char \<Rightarrow> bool" where
  "is_file_char c = (let n = (of_char c :: nat) in 97 \<le> n \<and> n \<le> 104)"

definition is_rank_char :: "char \<Rightarrow> bool" where
  "is_rank_char c = (let n = (of_char c :: nat) in 49 \<le> n \<and> n \<le> 56)"

definition line_end :: "char \<Rightarrow> bool" where
  "line_end c = (c = NL \<or> c = CR)"

definition file_digit_at :: "string \<Rightarrow> bool" where
  "file_digit_at s = (case s of a # b # _ \<Rightarrow> is_file_char a \<and> isDigit b | _ \<Rightarrow> False)"

fun file_digit_later :: "string \<Rightarrow> bool" where
  "file_digit_later [] = False"
| "file_digit_later (c # cs) =
     (file_digit_at (c # cs) \<or> (\<not> line_end c \<and> file_digit_later cs))"

fun two_squares :: "string \<Rightarrow> bool" where
  "two_squares [] = False"
| "two_squares (c # cs) = ((file_digit_at (c # cs) \<and> file_digit_later (tl cs)) \<or> two_squares cs)"

text \<open>\<open>_inferPieceType\<close>: \<open>None\<close> is \<open>undefined\<close>; the result may be a string that names no piece.\<close>

definition inferPieceType :: "string \<Rightarrow> string option" where
  "inferPieceType san =
     (case san of
        [] \<Rightarrow> Some []
      | c # _ \<Rightarrow>
          if is_file_char c then (if two_squares san then None else Some ''p'')
          else if toLowerCase c = CHR ''o'' then Some ''k''
          else Some [toLowerCase c])"

text \<open>The null move built by \<open>_moveFromSan\<close>.\<close>

definition null_move :: "color \<Rightarrow> move" where
  "null_move c =
     \<lparr>mcolor = c, mfrom = 0, mto = 0, mpiece = King, captured = None, promotion = None,
      flags = NULL_MOVE\<rparr>"

text \<open>The strict loop: the first move whose stripped text is the text asked for.\<close>

fun strict_match ::
  "zobrist \<Rightarrow> string \<Rightarrow> move list \<Rightarrow> move list \<Rightarrow> game \<Rightarrow> (jserror + move option) \<times> game" where
  "strict_match zk clean moves [] g = (Inr None, g)"
| "strict_match zk clean moves (m # ms) g =
     bindE (moveToSan zk m moves g)
       (\<lambda>san g1. if clean = strippedSan san then (Inr (Some m), g1)
                  else strict_match zk clean moves ms g1)"

text \<open>
  The two patterns of the permissive parser. An optional part is tried present first, then
  absent; the match found is the leftmost one. The result is the groups \<open>piece\<close>, \<open>from\<close>,
  \<open>to\<close> and \<open>promotion\<close>.
\<close>

definition orElse :: "'a option \<Rightarrow> 'a option \<Rightarrow> 'a option" where
  "orElse a b = (case a of None \<Rightarrow> b | Some x \<Rightarrow> Some x)"

definition opt_char ::
  "(char \<Rightarrow> bool) \<Rightarrow> string \<Rightarrow> (char option \<Rightarrow> string \<Rightarrow> 'a option) \<Rightarrow> 'a option" where
  "opt_char P s k =
     (case s of
        [] \<Rightarrow> k None s
      | c # r \<Rightarrow> if P c then orElse (k (Some c) r) (k None s) else k None s)"

definition regex_to :: "string \<Rightarrow> (string \<times> char option) option" where
  "regex_to s =
     (case s of
        f # r # rest \<Rightarrow>
          if is_file_char f \<and> is_rank_char r
          then Some ([f, r], (case rest of
                                [] \<Rightarrow> None
                              | c # _ \<Rightarrow> if c \<in> set ''qrbnQRBN'' then Some c else None))
          else None
      | _ \<Rightarrow> None)"

definition regex_tail :: "string \<Rightarrow> (string \<times> char option) option" where
  "regex_tail s =
     opt_char (\<lambda>c. c = CHR ''x'') s (\<lambda>_ s1. opt_char (\<lambda>c. c = CHR ''-'') s1 (\<lambda>_ s2. regex_to s2))"

definition is_piece_char :: "char \<Rightarrow> bool" where
  "is_piece_char c = (c \<in> set ''pnbrqkPNBRQK'')"

definition opt_text :: "char option \<Rightarrow> string" where
  "opt_text c = (case c of None \<Rightarrow> [] | Some x \<Rightarrow> [x])"

definition regex_full_at :: "string \<Rightarrow> (char option \<times> string \<times> string \<times> char option) option" where
  "regex_full_at s =
     opt_char is_piece_char s
       (\<lambda>pc s1. case s1 of
                   f # r # rest \<Rightarrow>
                     if is_file_char f \<and> is_rank_char r
                     then map_option (\<lambda>(dst, promo). (pc, [f, r], dst, promo)) (regex_tail rest)
                     else None
                 | _ \<Rightarrow> None)"

definition regex_loose_at :: "string \<Rightarrow> (char option \<times> string \<times> string \<times> char option) option" where
  "regex_loose_at s =
     opt_char is_piece_char s
       (\<lambda>pc s1. opt_char is_file_char s1
          (\<lambda>fc s2. opt_char is_rank_char s2
             (\<lambda>rc s3. map_option (\<lambda>(dst, promo). (pc, opt_text fc @ opt_text rc, dst, promo))
                         (regex_tail s3))))"

fun regex_search :: "(string \<Rightarrow> 'a option) \<Rightarrow> string \<Rightarrow> 'a option" where
  "regex_search f [] = f []"
| "regex_search f (c # cs) = orElse (f (c # cs)) (regex_search f cs)"

text \<open>The permissive loop over the moves.\<close>

definition piece_agrees :: "char option \<Rightarrow> move \<Rightarrow> bool" where
  "piece_agrees pc m = (case pc of None \<Rightarrow> True | Some c \<Rightarrow> toLowerCase c = ptype_letter (mpiece m))"

definition promotion_agrees :: "char option \<Rightarrow> move \<Rightarrow> bool" where
  "promotion_agrees pr m =
     (case pr of
        None \<Rightarrow> True
      | Some c \<Rightarrow> (case promotion m of None \<Rightarrow> False | Some p \<Rightarrow> toLowerCase c = ptype_letter p))"

fun permissive_match ::
  "zobrist \<Rightarrow> string \<Rightarrow> char option \<Rightarrow> string \<Rightarrow> string \<Rightarrow> char option \<Rightarrow> bool \<Rightarrow> move list
     \<Rightarrow> move list \<Rightarrow> game \<Rightarrow> (jserror + move option) \<times> game" where
  "permissive_match zk clean pc src dst pr overly moves [] g = (Inr None, g)"
| "permissive_match zk clean pc src dst pr overly moves (m # ms) g =
     (if src = []
      then bindE (moveToSan zk m moves g)
             (\<lambda>san g1. if clean = remove1 (CHR ''x'') (strippedSan san) then (Inr (Some m), g1)
                        else permissive_match zk clean pc src dst pr overly moves ms g1)
      else if piece_agrees pc m \<and> Ox88 src = Some (mfrom m) \<and> Ox88 dst = Some (mto m)
              \<and> promotion_agrees pr m
      then (Inr (Some m), g)
      else if overly \<and> piece_agrees pc m \<and> Ox88 dst = Some (mto m)
              \<and> (src = char_at (algebraic (mfrom m)) 0 \<or> src = char_at (algebraic (mfrom m)) 1)
              \<and> promotion_agrees pr m
      then (Inr (Some m), g)
      else permissive_match zk clean pc src dst pr overly moves ms g)"

text \<open>\<open>_moveFromSan(move, strict)\<close>: \<open>None\<close> is \<open>null\<close>.\<close>

definition moveFromSan :: "zobrist \<Rightarrow> string \<Rightarrow> bool \<Rightarrow> game \<Rightarrow> (jserror + move option) \<times> game" where
  "moveFromSan zk mv strict g =
     (let c0 = strippedSan mv;
          clean = (if \<not> strict \<and> c0 = ''0-0'' then ''O-O''
                   else if \<not> strict \<and> c0 = ''0-0-0'' then ''O-O-O'' else c0)
      in if clean = SAN_NULLMOVE then (Inr (Some (null_move (turn g))), g)
         else bindE (game_moves zk True (inferPieceType clean) None g)
                (\<lambda>moves g1.
                   bindE (strict_match zk clean moves moves g1)
                     (\<lambda>found g2.
                        if found \<noteq> None \<or> strict then (Inr found, g2)
                        else (let matches = orElse (regex_search regex_full_at clean)
                                                   (regex_search regex_loose_at clean);
                                  piece = (case matches of
                                             Some (Some c, _) \<Rightarrow> Some [c]
                                           | _ \<Rightarrow> inferPieceType clean)
                              in bindE (game_moves zk True piece None g2)
                                   (\<lambda>moves2 g3.
                                      case matches of
                                        None \<Rightarrow> (Inr None, g3)
                                      | Some (pc, src, dst, pr) \<Rightarrow>
                                          permissive_match zk clean pc src dst pr
                                            (length src = 1) moves2 moves2 g3)))))"

section \<open>Moves through the public interface (Game.ts, moveUtils.ts, chessPGN.ts)\<close>

text \<open>
  \<open>fen()\<close> in full. Without \<open>forceEnpassantSquare\<close> the en-passant square is printed only
  when a pawn next to the pushed pawn can take it without leaving its king attacked, which is
  tried by making and unmaking the capture.
\<close>

definition ep_capture_move :: "color \<Rightarrow> int \<Rightarrow> int \<Rightarrow> move" where
  "ep_capture_move c src dst =
     \<lparr>mcolor = c, mfrom = src, mto = dst, mpiece = Pawn, captured = Some Pawn, promotion = None,
      flags = EP_CAPTURE\<rparr>"

fun fen_ep :: "zobrist \<Rightarrow> int list \<Rightarrow> game \<Rightarrow> (jserror + string) \<times> game" where
  "fen_ep zk [] g = (Inr ''-'', g)"
| "fen_ep zk (sq # sqs) g =
     (if off_board sq then fen_ep zk sqs g
      else if is_color g sq (turn g) \<and> is_pawn_of g sq (turn g)
      then (let c = turn g
            in bindE (makeMove zk (ep_capture_move c sq (epSquare g)) g)
                 (\<lambda>_ g1. let isLegal = \<not> isKingAttacked g1 c; g2 = snd (undoMove zk g1)
                          in if isLegal then (Inr (algebraic (epSquare g2)), g2)
                             else fen_ep zk sqs g2))
      else fen_ep zk sqs g)"

definition game_fen :: "zobrist \<Rightarrow> bool \<Rightarrow> game \<Rightarrow> (jserror + string) \<times> game" where
  "game_fen zk forceEnpassantSquare g =
     (let placement = fen_board (board g) 0 0;
          castlingText = fen_castling g
      in bindE (if fenEpSquare g \<noteq> EMPTY
                then (if forceEnpassantSquare then (Inr (algebraic (fenEpSquare g)), g)
                      else if epSquare g \<noteq> EMPTY
                      then (let bigPawnSquare = epSquare g + (if turn g = White then 16 else -16)
                            in fen_ep zk [bigPawnSquare + 1, bigPawnSquare - 1] g)
                      else (Inr ''-'', g))
                else (Inr ''-'', g))
           (\<lambda>ep g1. (Inr (join_sp [placement, color_letter (turn g1), castlingText, ep,
                                     show_int (halfMoves g1), show_int (moveNumber g1)]), g1)))"

text \<open>
  Modelled from the spec: the \<open>Move\<close> object of Move.ts (section 7), as far as
  \<open>createPrettyMove\<close> fills it: the internal move, its text, and the position texts before and
  after it.
\<close>

record pretty_move =
  internal :: move
  san :: string
  before :: string
  after :: string

text \<open>\<open>createPrettyMove\<close> of moveUtils.ts; \<open>ChessPGN._createMove\<close> has the same body.\<close>

definition createPrettyMove :: "zobrist \<Rightarrow> move \<Rightarrow> game \<Rightarrow> (jserror + pretty_move) \<times> game" where
  "createPrettyMove zk m g =
     bindE (game_moves zk True None None g)
       (\<lambda>moves g1. bindE (moveToSan zk m moves g1)
          (\<lambda>s g2. bindE (game_fen zk False g2)
             (\<lambda>b g3. bindE (makeMove zk m g3)
                (\<lambda>_ g4. bindE (game_fen zk False g4)
                   (\<lambda>a g5. (Inr \<lparr>internal = m, san = s, before = b, after = a\<rparr>,
                             snd (undoMove zk g5)))))))"

text \<open>The argument of \<open>move\<close>: a text, \<open>null\<close>, or an object with \<open>from\<close>, \<open>to\<close> and an optional
  \<open>promotion\<close>.\<close>

datatype move_input = SanInput string | NullInput | ObjInput string string "string option"

text \<open>\<open>JSON.stringify\<close> of a string and of the move object, for the error message.\<close>

definition hex_digit :: "nat \<Rightarrow> char" where
  "hex_digit n = (if n < 10 then char_of (48 + n) else char_of (87 + n))"

definition json_char :: "char \<Rightarrow> string" where
  "json_char c =
     (let n = (of_char c :: nat)
      in if c = DQ then [BSL, DQ]
         else if c = BSL then [BSL, BSL]
         else if n = 8 then [BSL, CHR ''b'']
         else if n = 9 then [BSL, CHR ''t'']
         else if n = 10 then [BSL, CHR ''n'']
         else if n = 12 then [BSL, CHR ''f'']
         else if n = 13 then [BSL, CHR ''r'']
         else if n < 32 then [BSL, CHR ''u'', CHR ''0'', CHR ''0'', hex_digit (n div 16), hex_digit (n mod 16)]
         else [c])"

definition json_string :: "string \<Rightarrow> string" where
  "json_string s = [DQ] @ concat (map json_char s) @ [DQ]"

definition json_move :: "move_input \<Rightarrow> string" where
  "json_move i =
     (case i of
        SanInput s \<Rightarrow> s
      | NullInput \<Rightarrow> ''null''
      | ObjInput f t p \<Rightarrow>
          ''{'' @ json_string ''from'' @ '':'' @ json_string f @ '','' @ json_string ''to'' @ '':''
          @ json_string t
          @ (case p of None \<Rightarrow> [] | Some x \<Rightarrow> '','' @ json_string ''promotion'' @ '':'' @ json_string x)
          @ ''}'')"

definition object_matches :: "string \<Rightarrow> string \<Rightarrow> string option \<Rightarrow> move \<Rightarrow> bool" where
  "object_matches f t p m =
     (f = algebraic (mfrom m) \<and> t = algebraic (mto m)
      \<and> (promotion m = None \<or> p = map_option (\<lambda>x. [ptype_letter x]) (promotion m)))"

definition find_move :: "zobrist \<Rightarrow> move_input \<Rightarrow> bool \<Rightarrow> game \<Rightarrow> (jserror + move option) \<times> game" where
  "find_move zk i strict g =
     (case i of
        SanInput s \<Rightarrow> moveFromSan zk s strict g
      | NullInput \<Rightarrow> moveFromSan zk SAN_NULLMOVE strict g
      | ObjInput f t p \<Rightarrow>
          bindE (game_moves zk True None None g)
            (\<lambda>moves g1. (Inr (find (object_matches f t p) moves), g1)))"

text \<open>The common part of \<open>Game.move\<close> and \<open>ChessPGN.move\<close>, up to and with \<open>_makeMove\<close>.\<close>

definition move_core :: "zobrist \<Rightarrow> move_input \<Rightarrow> bool \<Rightarrow> game \<Rightarrow> (jserror + pretty_move) \<times> game" where
  "move_core zk i strict g =
     bindE (find_move zk i strict g)
       (\<lambda>moveObj g1.
          case moveObj of
            None \<Rightarrow> (Inl (Error (''Invalid move: '' @ json_move i) None), g1)
          | Some mo \<Rightarrow>
              if isCheck g1 \<and> flags mo AND NULL_MOVE \<noteq> 0
              then (Inl (Error ''Null move not allowed when in check'' None), g1)
              else bindE (createPrettyMove zk mo g1)
                     (\<lambda>pm g2. bindE (makeMove zk mo g2) (\<lambda>_ g3. (Inr pm, g3))))"

text \<open>\<open>Game.move\<close> and \<open>Game.undo\<close>.\<close>

definition game_move :: "zobrist \<Rightarrow> move_input \<Rightarrow> bool \<Rightarrow> game \<Rightarrow> (jserror + pretty_move) \<times> game" where
  "game_move zk i strict g = move_core zk i strict g"

definition game_undo :: "zobrist \<Rightarrow> game \<Rightarrow> (jserror + pretty_move option) \<times> game" where
  "game_undo zk g =
     (case undoMove zk g of
        (None, g1) \<Rightarrow> (Inr None, g1)
      | (Some m, g1) \<Rightarrow> bindE (createPrettyMove zk m g1) (\<lambda>pm g2. (Inr (Some pm), g2)))"

text \<open>\<open>ChessPGN.move\<close>, \<open>ChessPGN.undo\<close> and \<open>ChessPGN.setTurn\<close>: the same steps on the underlying
  game, with the position count kept.\<close>

definition decPositionCount :: "64 word \<Rightarrow> game \<Rightarrow> game" where
  "decPositionCount h g =
     (let currentCount = getPositionCount g h
      in if currentCount = 1 then g\<lparr>positionCount := (positionCount g)(h := None)\<rparr>
         else g\<lparr>positionCount := (positionCount g)(h \<mapsto> currentCount - 1)\<rparr>)"

definition chess_move :: "zobrist \<Rightarrow> move_input \<Rightarrow> bool \<Rightarrow> game \<Rightarrow> (jserror + pretty_move) \<times> game" where
  "chess_move zk i strict g =
     bindE (move_core zk i strict g) (\<lambda>pm g1. (Inr pm, incPositionCount g1))"

definition chess_undo :: "zobrist \<Rightarrow> game \<Rightarrow> (jserror + pretty_move option) \<times> game" where
  "chess_undo zk g =
     (let h = hash g
      in case undoMove zk g of
           (None, g1) \<Rightarrow> (Inr None, g1)
         | (Some m, g1) \<Rightarrow>
             bindE (createPrettyMove zk m g1) (\<lambda>pm g2. (Inr (Some pm), decPositionCount h g2)))"

definition setTurn :: "zobrist \<Rightarrow> color \<Rightarrow> game \<Rightarrow> (jserror + bool) \<times> game" where
  "setTurn zk c g =
     (if turn g = c then (Inr False, g)
      else bindE (chess_move zk (SanInput ''--'') False g) (\<lambda>_ g1. (Inr True, g1)))"

section \<open>Well-formed positions and the shape of generated moves\<close>

definition on_board :: "int \<Rightarrow> bool" where
  "on_board i = (0 \<le> i \<and> i \<le> 119 \<and> \<not> off_board i)"

definition home_square :: "color \<Rightarrow> int" where
  "home_square c = (if c = White then sq_e1 else sq_e8)"

definition forward :: "color \<Rightarrow> int" where
  "forward c = (if c = White then -16 else 16)"

text \<open>
  The conditions under which the engine works as intended. An en-passant square is an empty
  square of the third rank of the side that just moved, right behind a pawn of that side. A
  side with a castling right has its king on its home square, recorded in \<open>kings\<close>. No pawn
  of the side to move stands on its last rank.
\<close>

definition ep_ok :: "game \<Rightarrow> bool" where
  "ep_ok g =
     (epSquare g = EMPTY
      \<or> (on_board (epSquare g) \<and> rank_of (epSquare g) = (if turn g = White then 2 else 5)
          \<and> board g (epSquare g) = None
          \<and> board g (epSquare g - forward (turn g)) = Some (Piece (swapColor (turn g)) Pawn)))"

definition castling_ok :: "game \<Rightarrow> color \<Rightarrow> bool" where
  "castling_ok g c =
     (castling g c = 0
      \<or> (kings g c = home_square c \<and> board g (home_square c) = Some (Piece c King)))"

definition last_rank :: "color \<Rightarrow> int list" where
  "last_rank c = (if c = White then [0, 1, 2, 3, 4, 5, 6, 7] else [112, 113, 114, 115, 116, 117, 118, 119])"

definition pawns_ok :: "game \<Rightarrow> bool" where
  "pawns_ok g = list_all (\<lambda>i. board g i \<noteq> Some (Piece (turn g) Pawn)) (last_rank (turn g))"

definition wf_position :: "game \<Rightarrow> bool" where
  "wf_position g = (ep_ok g \<and> castling_ok g (turn g) \<and> pawns_ok g)"

text \<open>
  What a move the generator yields for a position looks like: a step or capture, a double
  pawn push, an en-passant capture, or a castling move.
\<close>

definition plain_move :: "game \<Rightarrow> move \<Rightarrow> bool" where
  "plain_move g m =
     (captured m = map_option ptype (board g (mto m))
      \<and> \<not> is_color g (mto m) (turn g)
      \<and> flags m = (if board g (mto m) = None then NORMAL else CAPTURE)
                    OR (if promotion m = None then 0 else PROMOTION)
      \<and> (promotion m \<noteq> None \<longrightarrow> mpiece m = Pawn)
      \<and> (mpiece m = Pawn \<longrightarrow>
            (promotion m \<noteq> None) = (rank_of (mto m) = RANK_1 \<or> rank_of (mto m) = RANK_8)
            \<and> (if board g (mto m) = None then mto m = mfrom m + forward (turn g)
                else mto m = mfrom m + forward (turn g) + 1 \<or> mto m = mfrom m + forward (turn g) - 1)))"

definition big_pawn_move :: "game \<Rightarrow> move \<Rightarrow> bool" where
  "big_pawn_move g m =
     (mpiece m = Pawn \<and> captured m = None \<and> promotion m = None \<and> flags m = BIG_PAWN
      \<and> mto m = mfrom m + 2 * forward (turn g)
      \<and> board g (mfrom m + forward (turn g)) = None \<and> board g (mto m) = None)"

definition ep_move :: "game \<Rightarrow> move \<Rightarrow> bool" where
  "ep_move g m =
     (mpiece m = Pawn \<and> captured m = Some Pawn \<and> promotion m = None \<and> flags m = EP_CAPTURE
      \<and> mto m = epSquare g \<and> board g (mto m) = None
      \<and> (mto m = mfrom m + forward (turn g) + 1 \<or> mto m = mfrom m + forward (turn g) - 1)
      \<and> board g (mto m - forward (turn g)) = Some (Piece (swapColor (turn g)) Pawn))"

definition castle_move :: "game \<Rightarrow> move \<Rightarrow> bool" where
  "castle_move g m =
     (mpiece m = King \<and> captured m = None \<and> promotion m = None
      \<and> mfrom m = home_square (turn g)
      \<and> ((flags m = KSIDE_CASTLE \<and> mto m = mfrom m + 2
           \<and> board g (mfrom m + 1) = None \<and> board g (mfrom m + 2) = None)
          \<or> (flags m = QSIDE_CASTLE \<and> mto m = mfrom m - 2
              \<and> board g (mfrom m - 1) = None \<and> board g (mfrom m - 2) = None
              \<and> board g (mfrom m - 3) = None)))"

definition generated :: "game \<Rightarrow> move \<Rightarrow> bool" where
  "generated g m =
     (mcolor m = turn g \<and> on_board (mfrom m) \<and> on_board (mto m) \<and> mfrom m \<noteq> mto m
      \<and> board g (mfrom m) = Some (Piece (turn g) (mpiece m))
      \<and> (plain_move g m \<or> big_pawn_move g m \<or> ep_move g m \<or> castle_move g m))"

text \<open>The piece that stands on the target square once a generated move is made.\<close>

definition arrived :: "game \<Rightarrow> move \<Rightarrow> piece" where
  "arrived g m = Piece (turn g) (case promotion m of None \<Rightarrow> mpiece m | Some t \<Rightarrow> t)"

text \<open>The key \<open>_pieceKey\<close> reads for the content of a square.\<close>

definition key_at :: "zobrist \<Rightarrow> piece option \<Rightarrow> int \<Rightarrow> 64 word" where
  "key_at zk po i = (case po of None \<Rightarrow> 0 | Some p \<Rightarrow> PIECE_KEYS zk (pcolor p) (ptype p) i)"

text \<open>The test of the filter loop of \<open>_moves\<close>: once the move is made, the king of the side
  that moved is not attacked.\<close>

definition keeps_king :: "zobrist \<Rightarrow> game \<Rightarrow> move \<Rightarrow> bool" where
  "keeps_king zk g m = (\<not> isKingAttacked (snd (makeMove zk m g)) (turn g))"

text \<open>A position with an en-passant square and no pawn that could have been pushed past it;
  the validator accepts it. The move is the capture of the white pawn on d5 onto that square.\<close>

definition phantom_ep_fen :: string where
  "phantom_ep_fen = ''4k3/8/8/3P4/8/8/8/4K3 w - e6 0 1''"

definition phantom_capture :: move where
  "phantom_capture = ep_capture_move White 51 36"

section \<open>Sequences of calls\<close>

text \<open>A sequence of calls of \<open>Game.move\<close>, each with its argument and its \<open>strict\<close> option; a
  call that throws leaves the game as it is at the throw, and the next call goes on from there.\<close>

definition game_move_all :: "zobrist \<Rightarrow> (move_input \<times> bool) list \<Rightarrow> game \<Rightarrow> game" where
  "game_move_all zk calls g = foldl (\<lambda>s (i, strict). snd (game_move zk i strict s)) g calls"

section \<open>Indexer and cursor: theorems\<close>

lemma map_of_map_set_other: "i \<noteq> k \<Longrightarrow> map_of (map_set k v xs) i = map_of xs i"
  by (induction xs) auto

lemma map_of_tl_None: "map_of xs i = None \<Longrightarrow> map_of (tl xs) i = None"
  by (cases xs) (auto split: if_splits)

lemma cache_game_other:
  "i \<noteq> k \<Longrightarrow> map_of (cache c) i = None \<Longrightarrow> map_of (cache (cache_game cfg k g c)) i = None"
  by (simp add: cache_game_def Let_def evictOldest_def map_of_map_set_other map_of_tl_None)

lemma cache_game_fields [simp]:
  "errors (cache_game cfg k g c) = errors c"
  "onError_calls (cache_game cfg k g c) = onError_calls c"
  "currentPosition (cache_game cfg k g c) = currentPosition c"
  by (simp_all add: cache_game_def Let_def evictOldest_def)

lemma parseGame_nonstrict_no_throw:
  "\<not> opt_strict cfg \<Longrightarrow> i < length (gameIndices cfg) \<Longrightarrow> \<exists>r. fst (parseGame cfg i c) = Inr r"
  by (auto simp: parseGame_def Let_def split: option.splits sum.splits)

lemma prefetch_loop_nonstrict_no_throw:
  "\<not> opt_strict cfg \<Longrightarrow> fst (prefetch_loop cfg js c) = Inr ()"
proof (induction js arbitrary: c)
  case Nil
  then show ?case by simp
next
  case (Cons j js)
  show ?case
  proof (cases "currentPosition c + j < length (gameIndices cfg)
                \<and> map_of (cache c) (currentPosition c + j) = None")
    case True
    then obtain r where "fst (parseGame cfg (currentPosition c + j) c) = Inr r"
      using parseGame_nonstrict_no_throw [OF Cons.prems] by blast
    then obtain c' where "parseGame cfg (currentPosition c + j) c = (Inr r, c')"
      by (cases "parseGame cfg (currentPosition c + j) c") auto
    with True show ?thesis
      using Cons.IH [OF Cons.prems] by (simp add: Let_def)
  next
    case False
    then show ?thesis
      using Cons.IH [OF Cons.prems] by (auto simp: Let_def)
  qed
qed


lemma parseGame_fallback_ok:
  assumes "i < length (gameIndices cfg)" and "map_of (cache c) i = None"
    and "processPgnToGame (parsers cfg) (game_slice cfg i) = Inl e"
    and "fallback_parse (parsers cfg) (gameIndices cfg ! i) (game_slice cfg i) = Inr g"
  shows "parseGame cfg i c = (Inr (Some g), cache_game cfg i g (c\<lparr>errors := errors c @ [(i, e)]\<rparr>))"
  using assms by (simp add: parseGame_def Let_def)

lemma cursor_next_null:
  assumes "\<not> opt_strict cfg" and "hasNext cfg c"
    and "parseGame cfg (currentPosition c) c = (Inr None, c1)"
  shows "fst (cursor_next cfg c) = Inr None"
proof -
  let ?c2 = "c1\<lparr>currentPosition := currentPosition c1 + 1\<rparr>"
  have "fst (prefetchGames cfg ?c2) = Inr ()"
    using prefetch_loop_nonstrict_no_throw [OF assms(1)] by (simp add: prefetchGames_def)
  then obtain c3 where "prefetchGames cfg ?c2 = (Inr (), c3)"
    by (cases "prefetchGames cfg ?c2") auto
  then show ?thesis
    using assms by (simp add: cursor_next_def Let_def)
qed

text \<open>
  C7. For the two-game text of the indexing test, whose second game has the header line
  \<open>[Annotator "O\"Connor"]\<close>, \<open>indexPgnGames\<close> returns exactly two entries, and the second
  entry's headers map \<open>Annotator\<close> to \<open>O"Connor\<close>, with one double quote between \<open>O\<close> and
  \<open>Connor\<close>: the raw value \<open>O\"Connor\<close> is unescaped.
\<close>

theorem indexPgnGames_escaped_quote:
  "length (indexPgnGames multiPgn) = 2
   \<and> headers (indexPgnGames multiPgn ! 1) ''Annotator'' = Some (''O'' @ [DQ] @ ''Connor'')
   \<and> unescape (''O'' @ [BSL, DQ] @ ''Connor'') = ''O'' @ [DQ] @ ''Connor''"
  by code_simp

lemma parseGame_guarded_nonstrict_no_throw:
  "\<not> opt_strict cfg \<Longrightarrow> i < length (gameIndices cfg)
   \<Longrightarrow> \<exists>r. fst (parseGame_guarded cfg i c) = Inr r"
  by (auto simp: parseGame_guarded_def Let_def split: option.splits sum.splits)

lemma parseGame_guarded_keeps_out:
  assumes "k \<noteq> i" and "map_of (cache c) i = None"
  shows "map_of (cache (snd (parseGame_guarded cfg k c))) i = None"
proof -
  have "map_of (cache (cache_game cfg k x (c\<lparr>errors := es\<rparr>))) i = None" for x es
    using cache_game_other [OF assms(1) [symmetric], of "c\<lparr>errors := es\<rparr>" cfg x] assms(2) by simp
  moreover have "map_of (cache (cache_game cfg k x c)) i = None" for x
    using cache_game_other [OF assms(1) [symmetric] assms(2)] .
  ultimately show ?thesis
    using assms(2)
    by (auto simp: parseGame_guarded_def Let_def split: option.splits sum.splits if_splits)
qed

lemma parseGame_guarded_grows:
  "set (errors c) \<subseteq> set (errors (snd (parseGame_guarded cfg k c)))
   \<and> set (onError_calls c) \<subseteq> set (onError_calls (snd (parseGame_guarded cfg k c)))
   \<and> currentPosition (snd (parseGame_guarded cfg k c)) = currentPosition c"
  by (auto simp: parseGame_guarded_def Let_def split: option.splits sum.splits if_splits)

text \<open>The prefetch of a cursor that is not strict never throws; it only adds to the errors and
  the calls of \<open>onError\<close>, and caches no index below the ones it tries.\<close>

lemma prefetch_loop_guarded_nonstrict:
  assumes "\<not> opt_strict cfg"
  shows "map_of (cache c) i = None \<Longrightarrow> \<forall>j \<in> set js. currentPosition c + j \<noteq> i
         \<Longrightarrow> fst (prefetch_loop_guarded cfg js c) = Inr ()
             \<and> map_of (cache (snd (prefetch_loop_guarded cfg js c))) i = None
             \<and> set (errors c) \<subseteq> set (errors (snd (prefetch_loop_guarded cfg js c)))
             \<and> set (onError_calls c) \<subseteq> set (onError_calls (snd (prefetch_loop_guarded cfg js c)))"
proof (induction js arbitrary: c)
  case Nil
  then show ?case by simp
next
  case (Cons j js)
  let ?k = "currentPosition c + j"
  show ?case
  proof (cases "?k < length (gameIndices cfg) \<and> map_of (cache c) ?k = None")
    case False
    with Cons.IH [OF Cons.prems(1)] Cons.prems(2) show ?thesis by (auto simp: Let_def)
  next
    case True
    obtain r c' where p: "parseGame_guarded cfg ?k c = (Inr r, c')"
      using parseGame_guarded_nonstrict_no_throw [OF assms, of ?k c] True
      by (cases "parseGame_guarded cfg ?k c") auto
    from Cons.prems(2) have ne: "?k \<noteq> i" by simp
    from parseGame_guarded_keeps_out [OF ne Cons.prems(1), of cfg] p
    have 1: "map_of (cache c') i = None" by simp
    from parseGame_guarded_grows [of c cfg ?k] p
    have 2: "set (errors c) \<subseteq> set (errors c')" "set (onError_calls c) \<subseteq> set (onError_calls c')"
      "currentPosition c' = currentPosition c" by simp_all
    from Cons.prems(2) 2(3) have 3: "\<forall>j \<in> set js. currentPosition c' + j \<noteq> i" by simp
    from Cons.IH [OF 1 3] 2 True p show ?thesis by (auto simp: Let_def)
  qed
qed

text \<open>
  C6. When the full parse of a game that is not cached fails, the error is recorded and
  tested. If it resembles a header-quoting issue, the fallback parse is performed: its game
  is cached and returned, or its error is recorded, thrown in strict mode, and in non-strict
  mode passed to \<open>onError\<close> with \<open>null\<close> returned. For every other error no fallback takes
  place, whatever it would yield: strict mode throws the error; non-strict mode calls
  \<open>onError\<close> with it and returns \<open>null\<close>, and \<open>next()\<close> at that index returns \<open>null\<close>, with
  the error in \<open>errors\<close>, the call of \<open>onError\<close> made and nothing cached for the index.
\<close>

theorem parseGame_fallback_only_for_header_issue:
  assumes "i < length (gameIndices cfg)" and "map_of (cache c) i = None"
    and "processPgnToGame (parsers cfg) (game_slice cfg i) = Inl e"
  shows "(looksLikeHeaderIssue e \<longrightarrow>
            parseGame_guarded cfg i c
              = (case fallback_parse (parsers cfg) (gameIndices cfg ! i) (game_slice cfg i) of
                   Inr g \<Rightarrow> (Inr (Some g), cache_game cfg i g (c\<lparr>errors := errors c @ [(i, e)]\<rparr>))
                 | Inl f \<Rightarrow>
                     if opt_strict cfg then (Inl f, c\<lparr>errors := errors c @ [(i, e), (i, f)]\<rparr>)
                     else (Inr None, c\<lparr>errors := errors c @ [(i, e), (i, f)],
                                         onError_calls := onError_calls c @ [(f, i)]\<rparr>)))
       \<and> (\<not> looksLikeHeaderIssue e \<longrightarrow>
            parseGame_guarded cfg i c
              = (if opt_strict cfg then (Inl e, c\<lparr>errors := errors c @ [(i, e)]\<rparr>)
                 else (Inr None, c\<lparr>errors := errors c @ [(i, e)],
                                     onError_calls := onError_calls c @ [(e, i)]\<rparr>))
            \<and> (opt_strict cfg \<and> hasNext_guarded cfg c \<and> currentPosition c = i \<longrightarrow>
                 fst (cursor_next_guarded cfg c) = Inl e)
            \<and> (\<not> opt_strict cfg \<and> hasNext_guarded cfg c \<and> currentPosition c = i \<longrightarrow>
                 fst (cursor_next_guarded cfg c) = Inr None
                 \<and> map_of (cache (snd (cursor_next_guarded cfg c))) i = None
                 \<and> (i, e) \<in> set (errors (snd (cursor_next_guarded cfg c)))
                 \<and> (e, i) \<in> set (onError_calls (snd (cursor_next_guarded cfg c)))))"
proof (intro conjI impI)
  assume "looksLikeHeaderIssue e"
  with assms show "parseGame_guarded cfg i c
              = (case fallback_parse (parsers cfg) (gameIndices cfg ! i) (game_slice cfg i) of
                   Inr g \<Rightarrow> (Inr (Some g), cache_game cfg i g (c\<lparr>errors := errors c @ [(i, e)]\<rparr>))
                 | Inl f \<Rightarrow>
                     if opt_strict cfg then (Inl f, c\<lparr>errors := errors c @ [(i, e), (i, f)]\<rparr>)
                     else (Inr None, c\<lparr>errors := errors c @ [(i, e), (i, f)],
                                         onError_calls := onError_calls c @ [(f, i)]\<rparr>))"
    by (simp add: parseGame_guarded_def Let_def split: sum.splits)
next
  assume n: "\<not> looksLikeHeaderIssue e"
  with assms show p: "parseGame_guarded cfg i c
              = (if opt_strict cfg then (Inl e, c\<lparr>errors := errors c @ [(i, e)]\<rparr>)
                 else (Inr None, c\<lparr>errors := errors c @ [(i, e)],
                                     onError_calls := onError_calls c @ [(e, i)]\<rparr>))"
    by (simp add: parseGame_guarded_def Let_def)
  {
    assume s: "opt_strict cfg \<and> hasNext_guarded cfg c \<and> currentPosition c = i"
    with p show "fst (cursor_next_guarded cfg c) = Inl e"
      by (simp add: cursor_next_guarded_def)
  }
  assume s: "\<not> opt_strict cfg \<and> hasNext_guarded cfg c \<and> currentPosition c = i"
  let ?c1 = "c\<lparr>errors := errors c @ [(i, e)], onError_calls := onError_calls c @ [(e, i)]\<rparr>"
  let ?c2 = "?c1\<lparr>currentPosition := currentPosition ?c1 + 1\<rparr>"
  let ?r = "prefetch_loop_guarded cfg [1..<Suc (opt_prefetch cfg)] ?c2"
  have c2: "map_of (cache ?c2) i = None"
    "\<forall>j \<in> set [1..<Suc (opt_prefetch cfg)]. currentPosition ?c2 + j \<noteq> i"
    using assms(2) s by auto
  from s have ns: "\<not> opt_strict cfg" by simp
  note pf = prefetch_loop_guarded_nonstrict [OF ns c2]
  from pf obtain c3 where r: "?r = (Inr (), c3)" by (cases ?r) auto
  from p s r have nx: "cursor_next_guarded cfg c = (Inr None, c3)"
    by (simp add: cursor_next_guarded_def Let_def)
  from pf r have "map_of (cache c3) i = None" "(i, e) \<in> set (errors c3)"
      "(e, i) \<in> set (onError_calls c3)"
    by auto
  with nx show "fst (cursor_next_guarded cfg c) = Inr None"
    and "map_of (cache (snd (cursor_next_guarded cfg c))) i = None"
    and "(i, e) \<in> set (errors (snd (cursor_next_guarded cfg c)))"
    and "(e, i) \<in> set (onError_calls (snd (cursor_next_guarded cfg c)))"
    by simp_all
qed

theorem parseGame_fallback_only_for_header_issue_witness:
  "1 < length (gameIndices demo_cfg)
   \<and> map_of (cache ((new_cursor demo_cfg)\<lparr>currentPosition := 1\<rparr>)) 1 = None
   \<and> processPgnToGame (parsers demo_cfg) (game_slice demo_cfg 1) = Inl demo_error
   \<and> \<not> looksLikeHeaderIssue demo_error
   \<and> \<not> opt_strict demo_cfg \<and> hasNext_guarded demo_cfg ((new_cursor demo_cfg)\<lparr>currentPosition := 1\<rparr>)
   \<and> fallback_parse (parsers demo_cfg) (gameIndices demo_cfg ! 1) (game_slice demo_cfg 1)
       = Inr (''1. d4 d5 *'' @ [NL, NL])
   \<and> fst (cursor_next_guarded demo_cfg ((new_cursor demo_cfg)\<lparr>currentPosition := 1\<rparr>)) = Inr None
   \<and> (1, demo_error)
       \<in> set (errors (snd (cursor_next_guarded demo_cfg ((new_cursor demo_cfg)\<lparr>currentPosition := 1\<rparr>))))
   \<and> processPgnToGame (parsers bracket_cfg) (game_slice bracket_cfg 1) = Inl bracket_error
   \<and> looksLikeHeaderIssue bracket_error
   \<and> fst (parseGame_guarded bracket_cfg 1 ((new_cursor bracket_cfg)\<lparr>currentPosition := 1\<rparr>))
       = Inr (Some (''1. d4 d5 *'' @ [NL, NL]))"
proof -
  let ?c = "(new_cursor demo_cfg)\<lparr>currentPosition := 1\<rparr>"
  let ?b = "(new_cursor bracket_cfg)\<lparr>currentPosition := 1\<rparr>"
  have h1: "1 < length (gameIndices demo_cfg)" by code_simp
  have h2: "map_of (cache ?c) 1 = None" by (simp add: new_cursor_def)
  have h3: "processPgnToGame (parsers demo_cfg) (game_slice demo_cfg 1) = Inl demo_error"
    by code_simp
  have h4: "\<not> looksLikeHeaderIssue demo_error" by code_simp
  have h5: "\<not> opt_strict demo_cfg" by code_simp
  have h6: "hasNext_guarded demo_cfg ?c" by code_simp
  have h7: "fallback_parse (parsers demo_cfg) (gameIndices demo_cfg ! 1) (game_slice demo_cfg 1)
              = Inr (''1. d4 d5 *'' @ [NL, NL])"
    by code_simp
  have h8: "currentPosition ?c = 1" by simp
  have b1: "1 < length (gameIndices bracket_cfg)" by code_simp
  have b2: "map_of (cache ?b) 1 = None" by (simp add: new_cursor_def)
  have b3: "processPgnToGame (parsers bracket_cfg) (game_slice bracket_cfg 1) = Inl bracket_error"
    by code_simp
  have b4: "looksLikeHeaderIssue bracket_error" by code_simp
  have b5: "fallback_parse (parsers bracket_cfg) (gameIndices bracket_cfg ! 1) (game_slice bracket_cfg 1)
              = Inr (''1. d4 d5 *'' @ [NL, NL])"
    by code_simp
  from parseGame_fallback_only_for_header_issue [OF h1 h2 h3] h4 h5 h6 h8
  have n: "fst (cursor_next_guarded demo_cfg ?c) = Inr None"
    "(1, demo_error) \<in> set (errors (snd (cursor_next_guarded demo_cfg ?c)))"
    by simp_all
  from parseGame_fallback_only_for_header_issue [OF b1 b2 b3] b4 b5
  have g: "fst (parseGame_guarded bracket_cfg 1 ?b) = Inr (Some (''1. d4 d5 *'' @ [NL, NL]))"
    by simp
  show ?thesis
    using h1 h2 h3 h4 h5 h6 h7 n b3 b4 g by blast
qed


section \<open>FEN: theorems\<close>

lemma split_ws_word_sp:
  "\<forall>c \<in> set x. \<not> is_space c \<Longrightarrow> is_space d \<Longrightarrow>
   split_ws (x @ d # r) = x # split_ws (dropWhile is_space r)"
  by (induction x) auto

lemma split_ws_word: "\<forall>c \<in> set x. \<not> is_space c \<Longrightarrow> split_ws x = [x]"
  by (induction x) auto

lemma is_space_sp [simp]: "is_space CHR '' ''"
  by (simp add: is_space_def)

lemma join_sp_hd: "ts \<noteq> [] \<Longrightarrow> clean_tokens ts \<Longrightarrow> dropWhile is_space (join_sp ts) = join_sp ts"
  by (cases ts rule: join_sp.cases) (auto simp: clean_tokens_def neq_Nil_conv)

lemma split_ws_join_sp: "ts \<noteq> [] \<Longrightarrow> clean_tokens ts \<Longrightarrow> split_ws (join_sp ts) = ts"
proof (induction ts rule: join_sp.induct)
  case 1
  then show ?case by simp
next
  case (2 x)
  then show ?case by (simp add: clean_tokens_def split_ws_word)
next
  case (3 x y zs)
  have c: "clean_tokens (y # zs)" using 3(3) by (simp add: clean_tokens_def)
  have "split_ws (x @ CHR '' '' # join_sp (y # zs))
          = x # split_ws (dropWhile is_space (join_sp (y # zs)))"
    using 3(3) by (intro split_ws_word_sp) (auto simp: clean_tokens_def)
  also have "\<dots> = x # y # zs"
    using join_sp_hd [OF _ c] 3(1) [OF _ c] by simp
  finally show ?case by simp
qed

lemma split_ws_not_Nil [simp]: "split_ws s \<noteq> []"
  by (induction s rule: split_ws.induct) (auto split: list.splits)

lemma split_ws_no_space_all: "\<forall>t \<in> set (split_ws s). \<forall>c \<in> set t. \<not> is_space c"
proof (induction s rule: split_ws.induct)
  case 1
  then show ?case by simp
next
  case (2 d ds)
  show ?case
  proof (cases "is_space d")
    case True
    with 2 show ?thesis by simp
  next
    case False
    obtain l ls where s: "split_ws ds = l # ls"
      by (cases "split_ws ds") auto
    have "\<forall>t \<in> set (l # ls). \<forall>c \<in> set t. \<not> is_space c"
      using 2(2) [OF False] s by simp
    with False s show ?thesis by simp
  qed
qed

lemma split_ws_no_space: "t \<in> set (split_ws s) \<Longrightarrow> c \<in> set t \<Longrightarrow> \<not> is_space c"
  using split_ws_no_space_all by blast

lemma validateFen_not_six:
  "length (split_ws fen) \<noteq> 6 \<Longrightarrow>
   validateFen fen = Some ''Invalid FEN: must contain six space-delimited fields''"
  by (simp add: validateFen_def)
lemma fen_tokens_autofill:
  assumes "2 \<le> length (split_ws fen)" and "length (split_ws fen) < 6"
    and "clean_tokens (split_ws fen)"
  shows "fen_tokens fen = split_ws fen @ drop (length (split_ws fen) - 2) [''-'', ''-'', ''0'', ''1'']"
proof -
  let ?ts = "split_ws fen @ drop (length (split_ws fen) - 2) [''-'', ''-'', ''0'', ''1'']"
  have "set (drop (length (split_ws fen) - 2) [''-'', ''-'', ''0'', ''1''])
          \<subseteq> {''-'', ''0'', ''1''}"
    using set_drop_subset [of "length (split_ws fen) - 2" "[''-'', ''-'', ''0'', ''1'']"] by auto
  then have "clean_tokens ?ts"
    using assms(3) by (auto simp: clean_tokens_def is_space_def)
  then have "split_ws (join_sp ?ts) = ?ts"
    by (intro split_ws_join_sp) simp_all
  then show ?thesis
    using assms(1,2) by (simp add: fen_tokens_def Let_def)
qed

lemma fen_tokens_six: "length (split_ws fen) = 6 \<Longrightarrow> fen_tokens fen = split_ws fen"
  by (simp add: fen_tokens_def)
subsection \<open>The placement field\<close>

lemma check_row_le: "check_row r s pd = None \<Longrightarrow> s \<le> 8"
proof (induction r arbitrary: s pd)
  case Nil
  then show ?case by (simp split: if_splits)
next
  case (Cons c r)
  from Cons.prems have "check_row r (s + digit_value c) True = None
                        \<or> check_row r (s + 1) False = None"
    by (simp split: if_splits del: list.set)
  then show ?case
    using Cons.IH [of "s + digit_value c" True] Cons.IH [of "s + 1" False] by auto
qed

lemma split_on_not_Nil [simp]: "split_on d s \<noteq> []"
  by (induction s) (auto split: list.splits)

lemma rows_placement_ok:
  "split_on CHR ''/'' p = r # rs \<Longrightarrow> check_row r s pd = None \<Longrightarrow> check_rows rs = None \<Longrightarrow>
   length rs + row = 7 \<Longrightarrow> placement_ok p s row pd"
proof (induction p arbitrary: r rs s pd row)
  case Nil
  then show ?case by (auto split: if_splits)
next
  case (Cons c cs)
  show ?case
  proof (cases "c = CHR ''/''")
    case True
    with Cons.prems have r: "r = []" and rs: "rs = split_on CHR ''/'' cs" by auto
    obtain r' rs' where s: "split_on CHR ''/'' cs = r' # rs'"
      by (cases "split_on CHR ''/'' cs") auto
    have "check_row r' 0 False = None" "check_rows rs' = None"
      using Cons.prems(3) rs s by (auto split: option.splits)
    moreover have "length rs' + (row + 1) = 7" using Cons.prems(4) rs s by simp
    ultimately have "placement_ok cs 0 (row + 1) False"
      using Cons.IH [OF s] by blast
    moreover have "s = 8" using Cons.prems(2) r by (auto split: if_splits)
    moreover have "row < 7" using Cons.prems(4) rs s by simp
    ultimately show ?thesis using True by simp
  next
    case False
    obtain l ls where s: "split_on CHR ''/'' cs = l # ls"
      by (cases "split_on CHR ''/'' cs") auto
    with Cons.prems(1) False have r: "r = c # l" and rs: "rs = ls" by auto
    show ?thesis
    proof (cases "isDigit c")
      case True
      with Cons.prems(2) r have p: "\<not> pd" and c: "check_row l (s + digit_value c) True = None"
        by (simp_all split: if_splits del: list.set)
      have "placement_ok cs (s + digit_value c) row True"
        using Cons.IH [OF s c] Cons.prems(3,4) rs by simp
      moreover have "s + digit_value c \<le> 8" using check_row_le [OF c] .
      ultimately show ?thesis using True False p by simp
    next
      case d: False
      with Cons.prems(2) r have m: "c \<in> set ''prnbqkPRNBQK''"
        and c: "check_row l (s + 1) False = None"
        by (simp_all split: if_splits del: list.set)
      have "placement_ok cs (s + 1) row False"
        using Cons.IH [OF s c] Cons.prems(3,4) rs by simp
      moreover have "s + 1 \<le> 8" using check_row_le [OF c] .
      ultimately show ?thesis using d False m by (simp del: list.set)
    qed
  qed
qed

lemma board_set_piece [simp]: "board (set_piece zk sq p g) = (board g)(sq := Some p)"
  by (simp add: set_piece_def Let_def)

lemma piece_letter_roundtrip:
  "\<forall>c \<in> set ''prnbqkPRNBQK''.
     case letter_ptype (toLowerCase c) of
       None \<Rightarrow> False
     | Some t \<Rightarrow> piece_letter (Piece (if (of_char c :: nat) < 97 then White else Black) t) = c"
  by code_simp

lemma placement_ok_row: "placement_ok p col row pd \<Longrightarrow> row \<le> 7"
proof (induction p arbitrary: col row pd)
  case Nil
  then show ?case by simp
next
  case (Cons c cs)
  from Cons.prems have "(row < 7 \<and> placement_ok cs 0 (row + 1) False)
      \<or> placement_ok cs (col + digit_value c) row True \<or> placement_ok cs (col + 1) row False"
    by (simp split: if_splits del: list.set)
  then show ?case using Cons.IH by auto
qed

lemma place_pieces_board:
  "placement_ok p col row pd \<Longrightarrow>
   \<exists>g'. place_pieces zk p (16 * int row + int col) g = Inr g'
         \<and> board g' = place_board p (16 * int row + int col) (board g)"
proof (induction p arbitrary: col row pd g)
  case Nil
  then show ?case by simp
next
  case (Cons c cs)
  show ?case
  proof (cases "c = CHR ''/''")
    case True
    with Cons.prems have col: "col = 8" and ok: "placement_ok cs 0 (row + 1) False" by simp_all
    have e: "16 * int row + int col + 8 = 16 * int (row + 1) + int 0" using col by simp
    have s1: "place_pieces zk (c # cs) (16 * int row + int col) g
                = place_pieces zk cs (16 * int row + int col + 8) g"
      and s2: "place_board (c # cs) (16 * int row + int col) (board g)
                = place_board cs (16 * int row + int col + 8) (board g)"
      using True by simp_all
    from Cons.IH [OF ok, of g] show ?thesis
      unfolding s1 s2 e by blast
  next
    case False
    show ?thesis
    proof (cases "isDigit c")
      case True
      with Cons.prems False have ok: "placement_ok cs (col + digit_value c) row True" by simp
      have e: "16 * int row + int col + int (digit_value c)
                 = 16 * int row + int (col + digit_value c)" by simp
      have s1: "place_pieces zk (c # cs) (16 * int row + int col) g
                  = place_pieces zk cs (16 * int row + int col + int (digit_value c)) g"
        and s2: "place_board (c # cs) (16 * int row + int col) (board g)
                  = place_board cs (16 * int row + int col + int (digit_value c)) (board g)"
        using True False by simp_all
      from Cons.IH [OF ok, of g] show ?thesis
        unfolding s1 s2 e by blast
    next
      case d: False
      with Cons.prems False have m: "c \<in> set ''prnbqkPRNBQK''" and c: "col < 8"
        and ok: "placement_ok cs (col + 1) row False"
        by (simp_all del: list.set)
      have "case letter_ptype (toLowerCase c) of None \<Rightarrow> False | Some t \<Rightarrow> True"
        using piece_letter_roundtrip m by (fastforce split: option.splits)
      then obtain t where t: "letter_ptype (toLowerCase c) = Some t"
        by (cases "letter_ptype (toLowerCase c)") auto
      let ?sq = "16 * int row + int col"
      define p where "p = Piece (if (of_char c :: nat) < 97 then White else Black) t"
      define g2 where "g2 = (if t = King
          then (set_piece zk ?sq p g)\<lparr>kings := (kings (set_piece zk ?sq p g))(pcolor p := ?sq)\<rparr>
          else set_piece zk ?sq p g)"
      have b: "board g2 = (board g)(?sq := Some p)" by (simp add: g2_def)
      have le: "\<not> ?sq \<ge> 128"
      proof -
        have "row \<le> 7" using placement_ok_row [OF Cons.prems] .
        then show ?thesis using c by simp
      qed
      have e: "?sq + 1 = 16 * int row + int (col + 1)" by simp
      have s1: "place_pieces zk (c # cs) ?sq g = place_pieces zk cs (?sq + 1) g2"
        using False d t le by (simp add: Let_def g2_def p_def)
      have s2: "place_board (c # cs) ?sq (board g) = place_board cs (?sq + 1) (board g2)"
        using False d t b by (simp add: p_def)
      from Cons.IH [OF ok, of g2] show ?thesis
        unfolding s1 s2 e by blast
    qed
  qed
qed

lemma place_board_below: "j < sq \<Longrightarrow> place_board p sq b j = b j"
  by (induction p arbitrary: sq b) (auto split: option.splits)

lemma square_facts:
  "\<forall>row \<in> set [0..<8]. \<forall>col \<in> set [0..<8].
     off_board (16 * int row + int col + 1) = (col = 7)
     \<and> \<not> 16 * int row + int col > 119
     \<and> (16 * int row + int col \<noteq> sq_h1) = (\<not> (row = 7 \<and> col = 7))"
  by code_simp

lemma fen_board_rows_aux:
  "i = 16 * int row + int col \<Longrightarrow> row \<le> 7 \<Longrightarrow> col \<le> 7 \<Longrightarrow>
   fen_board b i n = fen_rows b row col n"
proof (induction "(8 - row) * 9 + (8 - col)" arbitrary: i row col n rule: less_induct)
  case less
  have f: "off_board (i + 1) = (col = 7)" "\<not> i > 119" "(i \<noteq> sq_h1) = (\<not> (row = 7 \<and> col = 7))"
    using square_facts less.prems by auto
  define out where "out = (case b i of
      Some p \<Rightarrow> (if n > 0 then show_nat n else []) @ [piece_letter p] | None \<Rightarrow> [])"
  define n1 where "n1 = (case b i of Some p \<Rightarrow> 0 | None \<Rightarrow> n + 1)"
  have rows: "fen_rows b row col n = out @ fen_rows b row (col + 1) n1"
    using less.prems
    by (subst fen_rows.simps) (simp add: out_def n1_def split: option.splits)
  show ?case
  proof (cases "col = 7")
    case True
    have nxt: "fen_board b (i + 9) 0 = fen_rows b (row + 1) 0 0"
    proof (cases "row = 7")
      case True
      then have "i + 9 = 128" using \<open>col = 7\<close> less.prems by simp
      then show ?thesis using True
        by (simp add: fen_board.simps [of b 128] fen_rows.simps [of b 8])
    next
      case False
      have "i + 9 = 16 * int (row + 1) + int 0" using True less.prems by simp
      moreover have "(8 - (row + 1)) * 9 + (8 - 0) < (8 - row) * 9 + (8 - col)"
        using False less.prems by simp
      ultimately show ?thesis
        using False less.prems less.hyps [of "row + 1" 0 "i + 9" 0] by simp
    qed
    have brd: "fen_board b i n
                 = out @ (if n1 > 0 then show_nat n1 else [])
                       @ (if i \<noteq> sq_h1 then ''/'' else []) @ fen_board b (i + 9) 0"
      using f True
      by (subst fen_board.simps) (simp add: out_def n1_def Let_def split: option.splits)
    have r8: "fen_rows b row (col + 1) n1
                = (if n1 > 0 then show_nat n1 else []) @ (if row < 7 then ''/'' else [])
                  @ fen_rows b (row + 1) 0 0"
      using True less.prems by (subst fen_rows.simps) simp
    have "(i \<noteq> sq_h1) = (row < 7)" using f True less.prems by auto
    then show ?thesis
      unfolding brd rows r8 nxt by simp
  next
    case False
    have brd: "fen_board b i n = out @ fen_board b (i + 1) n1"
      using f False
      by (subst fen_board.simps) (simp add: out_def n1_def Let_def split: option.splits)
    have "i + 1 = 16 * int row + int (col + 1)" using less.prems by simp
    moreover have "(8 - row) * 9 + (8 - (col + 1)) < (8 - row) * 9 + (8 - col)"
      using False less.prems by simp
    ultimately have "fen_board b (i + 1) n1 = fen_rows b row (col + 1) n1"
      using False less.prems less.hyps [of row "col + 1" "i + 1" n1] by simp
    then show ?thesis
      unfolding brd rows by simp
  qed
qed

lemma fen_board_rows: "fen_board b 0 0 = fen_rows b 0 0 0"
  using fen_board_rows_aux [of 0 0 0 b 0] by simp

lemma fen_rows_skip:
  "col + k \<le> 8 \<Longrightarrow> row \<le> 7 \<Longrightarrow>
   (\<forall>j. col \<le> j \<and> j < col + k \<longrightarrow> b (16 * int row + int j) = None) \<Longrightarrow>
   fen_rows b row col n = fen_rows b row (col + k) (n + k)"
proof (induction k arbitrary: col n)
  case 0
  then show ?case by simp
next
  case (Suc k)
  have "b (16 * int row + int col) = None" using Suc.prems by simp
  then have "fen_rows b row col n = fen_rows b row (col + 1) (n + 1)"
    using Suc.prems by (simp add: fen_rows.simps [of b row col])
  also have "\<dots> = fen_rows b row (col + 1 + k) (n + 1 + k)"
    using Suc.prems by (intro Suc.IH) auto
  finally show ?case by simp
qed

lemma show_nat_0: "show_nat 0 = ''0''"
  by code_simp

lemma digit_show: "\<forall>c \<in> set ''0123456789''. show_nat (digit_value c) = [c] \<and> isDigit c"
  by code_simp

lemma isDigit_set: "isDigit c \<longleftrightarrow> c \<in> set ''0123456789''"
proof
  assume "c \<in> set ''0123456789''"
  then show "isDigit c" using digit_show by blast
next
  assume a: "isDigit c"
  have "\<forall>n \<in> set [48..<58]. char_of n \<in> set ''0123456789''" by code_simp
  moreover have "(of_char c :: nat) \<in> set [48..<58]"
    using a by (simp add: isDigit_def Let_def, arith)
  ultimately have "char_of (of_char c :: nat) \<in> set ''0123456789''" by blast
  then show "c \<in> set ''0123456789''" by simp
qed

lemma fen_rows_place:
  "placement_ok p col row (n > 0) \<Longrightarrow> CHR ''0'' \<notin> set p \<Longrightarrow>
   (\<forall>j \<ge> 16 * int row + int col. b j = None) \<Longrightarrow>
   fen_rows (place_board p (16 * int row + int col) b) row col n
     = (if n > 0 then show_nat n else []) @ p"
proof (induction p arbitrary: col row n b)
  case Nil
  then show ?case
    by (simp add: fen_rows.simps [of _ 7 8] fen_rows.simps [of _ 8])
next
  case (Cons c cs)
  have row: "row \<le> 7" using placement_ok_row [OF Cons.prems(1)] .
  let ?sq = "16 * int row + int col"
  show ?case
  proof (cases "c = CHR ''/''")
    case True
    with Cons.prems(1) have col: "col = 8" and r: "row < 7"
      and ok: "placement_ok cs 0 (row + 1) (0 > (0::nat))"
      by simp_all
    have e: "\<forall>j \<ge> 16 * int (row + 1) + int 0. b j = None"
      using Cons.prems(3) col by auto
    have "fen_rows (place_board cs (16 * int (row + 1) + int 0) b) (row + 1) 0 0 = cs"
      using Cons.IH [OF ok _ e] Cons.prems(2) by simp
    moreover have "?sq + 8 = 16 * int (row + 1) + int 0" using col by simp
    ultimately show ?thesis
      using True col r
      by (simp add: fen_rows.simps [of _ row 8])
  next
    case False
    show ?thesis
    proof (cases "isDigit c")
      case True
      let ?d = "digit_value c"
      have c0: "c \<noteq> CHR ''0''" using Cons.prems(2) by auto
      have sh: "show_nat ?d = [c]" using True digit_show isDigit_set by blast
      have dpos: "?d > 0"
      proof (rule ccontr)
        assume "\<not> ?d > 0"
        then have "show_nat ?d = ''0''" using show_nat_0 by simp
        with sh c0 show False by simp
      qed
      from Cons.prems(1) True False have n0: "n = 0" and le: "col + ?d \<le> 8"
        and ok: "placement_ok cs (col + ?d) row (?d > 0)"
        using dpos by simp_all
      let ?B = "place_board cs (16 * int row + int (col + ?d)) b"
      have e: "\<forall>j \<ge> 16 * int row + int (col + ?d). b j = None"
        using Cons.prems(3) by auto
      have ih: "fen_rows ?B row (col + ?d) ?d = [c] @ cs"
        using Cons.IH [OF ok _ e] Cons.prems(2) dpos sh by simp
      have "\<forall>j. col \<le> j \<and> j < col + ?d \<longrightarrow> ?B (16 * int row + int j) = None"
        using Cons.prems(3) by (auto simp: place_board_below)
      from fen_rows_skip [OF le row this, of 0] ih
      have "fen_rows ?B row col 0 = [c] @ cs" by simp
      moreover have "place_board (c # cs) ?sq b = ?B"
        using True False by (simp add: algebra_simps)
      ultimately show ?thesis using n0 by simp
    next
      case d: False
      from Cons.prems(1) d False have m: "c \<in> set ''prnbqkPRNBQK''" and c: "col < 8"
        and ok: "placement_ok cs (col + 1) row (0 > (0::nat))"
        by (simp_all del: list.set)
      have "case letter_ptype (toLowerCase c) of None \<Rightarrow> False
            | Some t \<Rightarrow> piece_letter (Piece (if (of_char c :: nat) < 97 then White else Black) t) = c"
        using piece_letter_roundtrip m by blast
      then obtain t where t: "letter_ptype (toLowerCase c) = Some t"
        and l: "piece_letter (Piece (if (of_char c :: nat) < 97 then White else Black) t) = c"
        by (cases "letter_ptype (toLowerCase c)") auto
      define q where "q = Piece (if (of_char c :: nat) < 97 then White else Black) t"
      define b' where "b' = b(?sq := Some q)"
      define B where "B = place_board cs (16 * int row + int (col + 1)) b'"
      have e: "\<forall>j \<ge> 16 * int row + int (col + 1). b' j = None"
        using Cons.prems(3) by (auto simp: b'_def)
      have ih: "fen_rows B row (col + 1) 0 = cs"
        using Cons.IH [OF ok _ e] Cons.prems(2) by (simp add: B_def)
      have at: "B ?sq = Some q"
        by (simp add: B_def b'_def place_board_below)
      have "place_board (c # cs) ?sq b = place_board cs (?sq + 1) b'"
        using d False t by (simp add: b'_def q_def)
      moreover have "?sq + 1 = 16 * int row + int (col + 1)" by simp
      ultimately have pb: "place_board (c # cs) ?sq b = B"
        by (simp only: B_def)
      have "fen_rows B row col n
              = (if n > 0 then show_nat n else []) @ [piece_letter q] @ fen_rows B row (col + 1) 0"
        using at c row by (subst fen_rows.simps) simp
      then show ?thesis
        unfolding pb using ih l by (simp add: q_def)
    qed
  qed
qed
subsection \<open>Counters, castling and en-passant fields\<close>

lemma digits_value_snoc: "digits_value (ds @ [c]) = 10 * digits_value ds + digit_value c"
  by (simp add: digits_value_def)

lemma digit_char: "isDigit c \<Longrightarrow> char_of (48 + digit_value c) = c \<and> digit_value c < 10"
  by (auto simp: isDigit_def digit_value_def Let_def)

lemma show_nat_digits:
  "ds \<noteq> [] \<Longrightarrow> \<forall>c \<in> set ds. isDigit c \<Longrightarrow> hd ds \<noteq> CHR ''0'' \<Longrightarrow>
   show_nat (digits_value ds) = ds \<and> digits_value ds > 0"
proof (induction ds rule: rev_induct)
  case Nil
  then show ?case by simp
next
  case (snoc c ds)
  have dc: "isDigit c" using snoc.prems(2) by simp
  show ?case
  proof (cases "ds = []")
    case True
    have v: "digits_value [c] = digit_value c" by (simp add: digits_value_def)
    have sh: "show_nat (digit_value c) = [c]" using dc digit_show isDigit_set by blast
    have "digit_value c > 0"
    proof (rule ccontr)
      assume "\<not> digit_value c > 0"
      then have "show_nat (digit_value c) = ''0''" using show_nat_0 by simp
      with sh snoc.prems(3) True show False by simp
    qed
    with True v sh show ?thesis by simp
  next
    case False
    then have "hd ds \<noteq> CHR ''0''" using snoc.prems(3) by simp
    with snoc.IH False snoc.prems(2)
    have ih: "show_nat (digits_value ds) = ds" "digits_value ds > 0" by auto
    let ?n = "digits_value ds" and ?d = "digit_value c"
    have d: "char_of (48 + ?d) = c" "?d < 10" using digit_char [OF dc] by auto
    have "show_nat (10 * ?n + ?d)
            = show_nat ((10 * ?n + ?d) div 10) @ [char_of (48 + (10 * ?n + ?d) mod 10)]"
      using ih(2) by (subst show_nat.simps) simp
    also have "\<dots> = ds @ [c]" using d ih(1) by simp
    finally show ?thesis using ih(2) by (simp add: digits_value_snoc)
  qed
qed

lemma canonical_number_roundtrip:
  assumes "canonical_number s"
  shows "parseInt s = Some (int (digits_value s)) \<and> show_int (int (digits_value s)) = s"
proof -
  from assms have ne: "s \<noteq> []" and dg: "\<forall>c \<in> set s. isDigit c"
    and z: "hd s = CHR ''0'' \<longrightarrow> s = ''0''"
    by (auto simp: canonical_number_def)
  have hdd: "isDigit (hd s)" using ne dg by (cases s) auto
  have "\<not> isDigit CHR ''-''" "\<not> isDigit CHR ''+''" by code_simp+
  with hdd have sign: "hd s \<noteq> CHR ''-''" "hd s \<noteq> CHR ''+''" by auto
  have tw: "takeWhile isDigit s = s" using dg by (simp add: takeWhile_eq_all_conv)
  have p: "parseInt s = Some (int (digits_value s))"
    using ne sign by (simp add: parseInt_def Let_def tw)
  have "show_nat (digits_value s) = s"
  proof (cases "hd s = CHR ''0''")
    case True
    with z have "s = ''0''" by simp
    moreover have "show_nat (digits_value ''0'') = ''0''" by code_simp
    ultimately show ?thesis by simp
  next
    case False
    then show ?thesis using show_nat_digits [OF ne dg] by simp
  qed
  then show ?thesis using p by (simp add: show_int_def)
qed

lemma ep_roundtrip:
  "\<forall>f \<in> set ''abcdefgh''. \<forall>r \<in> set ''36''.
     case Ox88 [f, r] of None \<Rightarrow> False | Some sq \<Rightarrow> sq \<noteq> EMPTY \<and> algebraic sq = [f, r]"
  by code_simp

lemma ep_field_roundtrip:
  assumes "ep_field_ok t"
  shows "\<exists>ep. (if t = ''-'' then Some EMPTY else Ox88 t) = Some ep
              \<and> (if ep \<noteq> EMPTY then algebraic ep else ''-'') = t"
proof (cases "t = ''-''")
  case True
  then show ?thesis by simp
next
  case False
  with assms obtain f r where t: "t = [f, r]" and f: "f \<in> set ''abcdefgh''" and r: "r \<in> set ''36''"
    by (auto simp: ep_field_ok_def split: list.splits)
  have "case Ox88 [f, r] of None \<Rightarrow> False | Some sq \<Rightarrow> sq \<noteq> EMPTY \<and> algebraic sq = [f, r]"
    using ep_roundtrip f r by blast
  then show ?thesis using t False by (auto split: option.splits)
qed

lemma castling_bits_simps [simp]:
  "castling_bits k q AND KSIDE_CASTLE \<noteq> 0 \<longleftrightarrow> k"
  "castling_bits k q AND QSIDE_CASTLE \<noteq> 0 \<longleftrightarrow> q"
  "\<not> k \<Longrightarrow> castling_bits k q AND NOT KSIDE_CASTLE = castling_bits k q"
  "\<not> q \<Longrightarrow> castling_bits k q AND NOT QSIDE_CASTLE = castling_bits k q"
  "\<not> q \<Longrightarrow> (castling_bits k q AND NOT QSIDE_CASTLE) AND NOT KSIDE_CASTLE = castling_bits False False"
  "\<not> k \<Longrightarrow> (castling_bits k q AND NOT QSIDE_CASTLE) AND NOT KSIDE_CASTLE = castling_bits False False"
  by (cases k; cases q; simp add: castling_bits_def KSIDE_CASTLE_def QSIDE_CASTLE_def)+

lemma updateCastlingRights_keep:
  assumes "castling g = (\<lambda>c. if c = White then castling_bits wk wq else castling_bits bk bq)"
    and "wk \<longrightarrow> has_piece g sq_e1 White King \<and> has_piece g sq_h1 White Rook"
    and "wq \<longrightarrow> has_piece g sq_e1 White King \<and> has_piece g sq_a1 White Rook"
    and "bk \<longrightarrow> has_piece g sq_e8 Black King \<and> has_piece g sq_h8 Black Rook"
    and "bq \<longrightarrow> has_piece g sq_e8 Black King \<and> has_piece g sq_a8 Black Rook"
  shows "castling (updateCastlingRights zk g) = castling g"
proof -
  have hp: "has_piece (g\<lparr>hash := h\<rparr>) sq c t = has_piece g sq c t" for h sq c t
    by (simp add: has_piece_def)
  show ?thesis
    unfolding updateCastlingRights_def Let_def
    using assms(2-5)
    by (cases wk; cases wq; cases bk; cases bq; simp add: hp assms(1) fun_eq_iff)
qed

lemma fen_castling_bits:
  "castling g = (\<lambda>c. if c = White then castling_bits wk wq else castling_bits bk bq) \<Longrightarrow>
   fen_castling g = castling_text wk wq bk bq"
  by (simp add: fen_castling_def castling_text_def)
subsection \<open>Loading a valid FEN and writing it back\<close>

lemma validateFen_NoneD:
  assumes "validateFen f = None"
  shows "length (split_ws f) = 6"
    and "\<exists>n. parseInt (split_ws f ! 5) = Some n"
    and "\<exists>n. parseInt (split_ws f ! 4) = Some n"
    and "ep_field_ok (split_ws f ! 3)"
    and "split_ws f ! 1 = ''w'' \<or> split_ws f ! 1 = ''b''"
    and "length (split_on CHR ''/'' (split_ws f ! 0)) = 8"
    and "check_rows (split_on CHR ''/'' (split_ws f ! 0)) = None"
  using assms
  by (simp_all add: validateFen_def Let_def split: if_splits option.splits del: list.set)

lemma updateCastlingRights_fields [simp]:
  "board (updateCastlingRights zk g) = board g"
  "turn (updateCastlingRights zk g) = turn g"
  "kings (updateCastlingRights zk g) = kings g"
  "epSquare (updateCastlingRights zk g) = epSquare g"
  "fenEpSquare (updateCastlingRights zk g) = fenEpSquare g"
  "halfMoves (updateCastlingRights zk g) = halfMoves g"
  "moveNumber (updateCastlingRights zk g) = moveNumber g"
  "history (updateCastlingRights zk g) = history g"
  "positionCount (updateCastlingRights zk g) = positionCount g"
  "header (updateCastlingRights zk g) = header g"
  by (simp_all add: updateCastlingRights_def Let_def)

lemma list_of_six:
  "length xs = 6 \<Longrightarrow> xs = [xs ! 0, xs ! 1, xs ! 2, xs ! 3, xs ! 4, xs ! 5]"
  by (auto simp: list_eq_iff_nth_eq less_Suc_eq numeral_eq_Suc)

lemma valid_placement_ok:
  assumes "validateFen f = None"
  shows "placement_ok (split_ws f ! 0) 0 0 False"
proof -
  note v = validateFen_NoneD [OF assms]
  obtain r rs where s: "split_on CHR ''/'' (split_ws f ! 0) = r # rs"
    by (cases "split_on CHR ''/'' (split_ws f ! 0)") auto
  with v(6,7) have "check_row r 0 False = None" "check_rows rs = None" "length rs + 0 = 7"
    by (auto split: option.splits)
  with s show ?thesis by (rule rows_placement_ok)
qed

text \<open>Every FEN the validator accepts is read into a position.\<close>

lemma digits_value_bound:
  "\<forall>c \<in> set s. isDigit c \<Longrightarrow> digits_value s < 10 ^ length s"
proof (induction s rule: rev_induct)
  case Nil
  then show ?case by (simp add: digits_value_def)
next
  case (snoc c s)
  then have "digits_value s < 10 ^ length s" and "isDigit c" by simp_all
  moreover from \<open>isDigit c\<close> have "digit_value c \<le> 9"
    by (auto simp: isDigit_def digit_value_def Let_def)
  ultimately show ?case by (simp add: digits_value_snoc)
qed

lemma canonical_number_exact:
  assumes "canonical_number s" and "parseInt s = Some n"
  shows "exact_count n"
proof -
  from assms(1) have d: "\<forall>c \<in> set s. isDigit c" and l: "length s \<le> 15"
    by (auto simp: canonical_number_def)
  from canonical_number_roundtrip [OF assms(1)] assms(2) have n: "n = int (digits_value s)"
    by simp
  have "digits_value s < 10 ^ length s" using d by (rule digits_value_bound)
  also have "(10::nat) ^ length s \<le> 10 ^ 15" using l by (intro power_increasing) simp_all
  finally show ?thesis unfolding n exact_count_def by simp
qed

lemma game_load_valid:
  assumes "validateFen f = None"
    and "canonical_number (split_ws f ! 4)" and "canonical_number (split_ws f ! 5)"
  obtains g2 ep hm mn where
    "place_pieces zk (split_ws f ! 0) 0
       ((clear_position g)\<lparr>hash := computeHash zk (clear_position g), positionCount := Map.empty\<rparr>)
       = Inr g2"
    and "board g2 = placement_board (split_ws f ! 0)"
    and "(if split_ws f ! 3 = ''-'' then Some EMPTY else Ox88 (split_ws f ! 3)) = Some ep"
    and "(if ep \<noteq> EMPTY then algebraic ep else ''-'') = split_ws f ! 3"
    and "parseInt (split_ws f ! 4) = Some hm" and "parseInt (split_ws f ! 5) = Some mn"
    and "game_load zk f g =
           Loaded ((updateCastlingRights zk
                      (g2\<lparr>turn := (if split_ws f ! 1 = ''w'' then White else Black),
                          castling := (\<lambda>c. if c = White
                             then castling_bits (CHR ''K'' \<in> set (split_ws f ! 2))
                                                (CHR ''Q'' \<in> set (split_ws f ! 2))
                             else castling_bits (CHR ''k'' \<in> set (split_ws f ! 2))
                                                (CHR ''q'' \<in> set (split_ws f ! 2)))\<rparr>))
                   \<lparr>epSquare := ep, fenEpSquare := ep, halfMoves := hm, moveNumber := mn,
                     hash := computeHash zk
                       ((updateCastlingRights zk
                          (g2\<lparr>turn := (if split_ws f ! 1 = ''w'' then White else Black),
                              castling := (\<lambda>c. if c = White
                                 then castling_bits (CHR ''K'' \<in> set (split_ws f ! 2))
                                                    (CHR ''Q'' \<in> set (split_ws f ! 2))
                                 else castling_bits (CHR ''k'' \<in> set (split_ws f ! 2))
                                                    (CHR ''q'' \<in> set (split_ws f ! 2)))\<rparr>))
                        \<lparr>epSquare := ep, fenEpSquare := ep, halfMoves := hm, moveNumber := mn\<rparr>)\<rparr>)"
proof -
  note v = validateFen_NoneD [OF assms(1)]
  have tok: "fen_tokens f = split_ws f" using v(1) by (simp add: fen_tokens_six)
  let ?g0 = "(clear_position g)\<lparr>hash := computeHash zk (clear_position g),
                                 positionCount := Map.empty\<rparr>"
  from place_pieces_board [OF valid_placement_ok [OF assms(1)], of zk ?g0]
  obtain g2 where p: "place_pieces zk (split_ws f ! 0) 0 ?g0 = Inr g2"
    and b: "board g2 = placement_board (split_ws f ! 0)"
    by (auto simp: placement_board_def clear_position_def)
  from ep_field_roundtrip [OF v(4)] obtain ep where
    ep: "(if split_ws f ! 3 = ''-'' then Some EMPTY else Ox88 (split_ws f ! 3)) = Some ep"
      "(if ep \<noteq> EMPTY then algebraic ep else ''-'') = split_ws f ! 3"
    by blast
  from v(2,3) obtain hm mn where
    n: "parseInt (split_ws f ! 4) = Some hm" "parseInt (split_ws f ! 5) = Some mn"
    by blast
  from canonical_number_exact [OF assms(2) n(1)] canonical_number_exact [OF assms(3) n(2)]
  have x: "exact_count hm" "exact_count mn" .
  have "game_load zk f g = Loaded ((updateCastlingRights zk
                      (g2\<lparr>turn := (if split_ws f ! 1 = ''w'' then White else Black),
                          castling := (\<lambda>c. if c = White
                             then castling_bits (CHR ''K'' \<in> set (split_ws f ! 2))
                                                (CHR ''Q'' \<in> set (split_ws f ! 2))
                             else castling_bits (CHR ''k'' \<in> set (split_ws f ! 2))
                                                (CHR ''q'' \<in> set (split_ws f ! 2)))\<rparr>))
                   \<lparr>epSquare := ep, fenEpSquare := ep, halfMoves := hm, moveNumber := mn,
                     hash := computeHash zk
                       ((updateCastlingRights zk
                          (g2\<lparr>turn := (if split_ws f ! 1 = ''w'' then White else Black),
                              castling := (\<lambda>c. if c = White
                                 then castling_bits (CHR ''K'' \<in> set (split_ws f ! 2))
                                                    (CHR ''Q'' \<in> set (split_ws f ! 2))
                                 else castling_bits (CHR ''k'' \<in> set (split_ws f ! 2))
                                                    (CHR ''q'' \<in> set (split_ws f ! 2)))\<rparr>))
                        \<lparr>epSquare := ep, fenEpSquare := ep, halfMoves := hm, moveNumber := mn\<rparr>)\<rparr>)"
    unfolding game_load_def tok Let_def castling_bits_def
    using p v(1,5) ep(1) n x by (auto simp del: list.set)
  with p b ep n show thesis by (rule that)
qed

text \<open>
  C3, as stated, fails: a FEN with both kings on their home squares, no rooks and all four
  castling rights passes the validator, but \<open>load\<close> drops the rights that have no rook, and
  the FEN written back has \<open>-\<close> in the castling field.
\<close>

theorem fen_roundtrip_counterexample:
  "validateFen bare_kings_fen = None
   \<and> join_sp (split_ws bare_kings_fen) = bare_kings_fen
   \<and> (case game_load demo_keys bare_kings_fen (new_Game demo_keys) of
         Loaded g1 \<Rightarrow> fen_forced g1 = ''4k3/8/8/8/8/8/8/4K3 w - - 0 1''
                      \<and> fen_forced g1 \<noteq> bare_kings_fen
       | _ \<Rightarrow> False)"
  by code_simp

text \<open>
  C3, amended. For every FEN that passes \<open>validateFen\<close> and is canonical (no digit 0 in the
  placement field; the castling field written in the order KQkq, or a dash, and naming only
  rights whose king and rook stand on their home squares; both counters in decimal without
  leading zeros and of at most fifteen digits), loading it and writing it back with
  \<open>forceEnpassantSquare\<close> yields the FEN itself, its fields separated by single spaces.
\<close>

theorem fen_roundtrip_canonical:
  assumes "validateFen f = None"
    and "CHR ''0'' \<notin> set (split_ws f ! 0)"
    and "canonical_castling (split_ws f ! 2)"
    and "rights_in_place (placement_board (split_ws f ! 0)) (split_ws f ! 2)"
    and "canonical_number (split_ws f ! 4)" and "canonical_number (split_ws f ! 5)"
  shows "\<exists>g1. game_load zk f g = Loaded g1 \<and> fen_forced g1 = join_sp (split_ws f)"
proof -
  note v = validateFen_NoneD [OF assms(1)]
  let ?t = "split_ws f"
  define wk wq bk bq where "wk = (CHR ''K'' \<in> set (?t ! 2))" and "wq = (CHR ''Q'' \<in> set (?t ! 2))"
    and "bk = (CHR ''k'' \<in> set (?t ! 2))" and "bq = (CHR ''q'' \<in> set (?t ! 2))"
  define cf where "cf = (\<lambda>c. if c = White then castling_bits wk wq else castling_bits bk bq)"
  define tn where "tn = (if ?t ! 1 = ''w'' then White else Black)"
  obtain g2 ep hm mn where
    b: "board g2 = placement_board (?t ! 0)"
    and ep: "(if ep \<noteq> EMPTY then algebraic ep else ''-'') = ?t ! 3"
    and n: "parseInt (?t ! 4) = Some hm" "parseInt (?t ! 5) = Some mn"
    and l: "game_load zk f g =
              Loaded ((updateCastlingRights zk (g2\<lparr>turn := tn, castling := cf\<rparr>))
                        \<lparr>epSquare := ep, fenEpSquare := ep, halfMoves := hm, moveNumber := mn,
                          hash := computeHash zk
                            ((updateCastlingRights zk (g2\<lparr>turn := tn, castling := cf\<rparr>))
                               \<lparr>epSquare := ep, fenEpSquare := ep, halfMoves := hm,
                                 moveNumber := mn\<rparr>)\<rparr>)"
    using game_load_valid [OF assms(1,5,6), of zk g]
    unfolding wk_def wq_def bk_def bq_def cf_def tn_def by metis
  define g3 where "g3 = g2\<lparr>turn := tn, castling := cf\<rparr>"
  define g1 where "g1 = (updateCastlingRights zk g3)
                          \<lparr>epSquare := ep, fenEpSquare := ep, halfMoves := hm, moveNumber := mn,
                            hash := computeHash zk
                              ((updateCastlingRights zk g3)
                                 \<lparr>epSquare := ep, fenEpSquare := ep, halfMoves := hm,
                                   moveNumber := mn\<rparr>)\<rparr>"
  have l1: "game_load zk f g = Loaded g1" using l by (simp add: g1_def g3_def)
  have brd: "fen_board (board g1) 0 0 = ?t ! 0"
  proof -
    have "board g1 = place_board (?t ! 0) (16 * int 0 + int 0) (\<lambda>i. None)"
      using b by (simp add: g1_def g3_def placement_board_def)
    moreover have "fen_rows (place_board (?t ! 0) (16 * int 0 + int 0) (\<lambda>i. None)) 0 0 0
                     = (if (0::nat) > 0 then show_nat 0 else []) @ ?t ! 0"
      using valid_placement_ok [OF assms(1)] assms(2) by (intro fen_rows_place) simp_all
    ultimately show ?thesis by (simp add: fen_board_rows)
  qed
  have trn: "color_letter (turn g1) = ?t ! 1"
    using v(5) by (auto simp: g1_def g3_def tn_def color_letter_def)
  have cst: "fen_castling g1 = ?t ! 2"
  proof -
    have "castling (updateCastlingRights zk g3) = castling g3"
      using assms(4) b
      by (intro updateCastlingRights_keep [of _ wk wq bk bq])
         (auto simp: g3_def cf_def has_piece_def rights_in_place_def wk_def wq_def bk_def bq_def)
    then have "castling g1 = cf" by (simp add: g1_def g3_def)
    then have "fen_castling g1 = castling_text wk wq bk bq"
      unfolding cf_def by (rule fen_castling_bits)
    then show ?thesis
      using assms(3) by (simp add: canonical_castling_def wk_def wq_def bk_def bq_def)
  qed
  have eps: "(if fenEpSquare g1 \<noteq> EMPTY then algebraic (fenEpSquare g1) else ''-'') = ?t ! 3"
    using ep by (auto simp: g1_def split: if_splits)
  have hms: "show_int (halfMoves g1) = ?t ! 4"
    using canonical_number_roundtrip [OF assms(5)] n(1) by (simp add: g1_def)
  have mns: "show_int (moveNumber g1) = ?t ! 5"
    using canonical_number_roundtrip [OF assms(6)] n(2) by (simp add: g1_def)
  have "fen_forced g1 = join_sp [?t ! 0, ?t ! 1, ?t ! 2, ?t ! 3, ?t ! 4, ?t ! 5]"
    unfolding fen_forced_def brd trn cst eps hms mns ..
  also have "\<dots> = join_sp ?t"
    using list_of_six [OF v(1)] by simp
  finally show ?thesis using l1 by blast
qed

theorem fen_roundtrip_canonical_witness:
  "validateFen DEFAULT_POSITION = None
   \<and> CHR ''0'' \<notin> set (split_ws DEFAULT_POSITION ! 0)
   \<and> canonical_castling (split_ws DEFAULT_POSITION ! 2)
   \<and> rights_in_place (placement_board (split_ws DEFAULT_POSITION ! 0)) (split_ws DEFAULT_POSITION ! 2)
   \<and> canonical_number (split_ws DEFAULT_POSITION ! 4)
   \<and> canonical_number (split_ws DEFAULT_POSITION ! 5)
   \<and> (\<exists>g1. game_load demo_keys DEFAULT_POSITION game_init = Loaded g1
            \<and> fen_forced g1 = DEFAULT_POSITION)"
proof -
  have h1: "validateFen DEFAULT_POSITION = None" by code_simp
  have h2: "CHR ''0'' \<notin> set (split_ws DEFAULT_POSITION ! 0)" by code_simp
  have h3: "canonical_castling (split_ws DEFAULT_POSITION ! 2)" by code_simp
  have h4: "rights_in_place (placement_board (split_ws DEFAULT_POSITION ! 0))
              (split_ws DEFAULT_POSITION ! 2)"
    by code_simp
  have h5: "canonical_number (split_ws DEFAULT_POSITION ! 4)" by code_simp
  have h6: "canonical_number (split_ws DEFAULT_POSITION ! 5)" by code_simp
  have j: "join_sp (split_ws DEFAULT_POSITION) = DEFAULT_POSITION" by code_simp
  from fen_roundtrip_canonical [OF h1 h2 h3 h4 h5 h6, of demo_keys game_init] j
  have "\<exists>g1. game_load demo_keys DEFAULT_POSITION game_init = Loaded g1
             \<and> fen_forced g1 = DEFAULT_POSITION"
    by simp
  with h1 h2 h3 h4 h5 h6 show ?thesis by blast
qed

subsection \<open>ChessPGN.load\<close>

lemma game_load_default: "\<exists>g. game_load zk DEFAULT_POSITION game_init = Loaded g"
proof -
  have "validateFen DEFAULT_POSITION = None" "canonical_number (split_ws DEFAULT_POSITION ! 4)"
    "canonical_number (split_ws DEFAULT_POSITION ! 5)"
    by code_simp+
  from game_load_valid [OF this, of zk game_init] show ?thesis by metis
qed

text \<open>Whenever the placement loop ends, the board it has built is the one \<open>place_board\<close>
  describes; the loop touches neither the history nor the headers.\<close>

lemma place_pieces_Inr:
  "place_pieces zk p sq g = Inr g' \<Longrightarrow>
     board g' = place_board p sq (board g) \<and> history g' = history g \<and> header g' = header g"
proof (induction p arbitrary: sq g)
  case Nil
  then show ?case by simp
next
  case (Cons c cs)
  show ?case
  proof (cases "c = CHR ''/'' \<or> isDigit c")
    case True
    with Cons show ?thesis by (auto split: if_splits)
  next
    case False
    with Cons.prems obtain t where t: "letter_ptype (toLowerCase c) = Some t" and sq: "\<not> sq \<ge> 128"
      by (auto split: option.splits if_splits)
    let ?col = "if (of_char c :: nat) < 97 then White else Black"
    let ?g1 = "set_piece zk sq (Piece ?col t) g"
    let ?g2 = "if t = King then ?g1\<lparr>kings := (kings ?g1)(?col := sq)\<rparr> else ?g1"
    from Cons.prems False t sq have "place_pieces zk cs (sq + 1) ?g2 = Inr g'"
      by (simp add: Let_def)
    from Cons.IH [OF this]
    have r: "board g' = place_board cs (sq + 1) (board ?g2)" "history g' = history ?g2"
      "header g' = header ?g2"
      by simp_all
    have f: "board ?g2 = (board g)(sq := Some (Piece ?col t))" "history ?g2 = history g"
      "header ?g2 = header g"
      by (simp_all add: set_piece_def Let_def)
    have "place_board (c # cs) sq (board g)
          = place_board cs (sq + 1) ((board g)(sq := Some (Piece ?col t)))"
      using False t by simp
    with r f show ?thesis by simp
  qed
qed

text \<open>\<open>load\<close> reads nothing of the position it replaces: of the game before the call only the
  headers remain.\<close>

lemma game_load_header_only:
  assumes "header g' = header g"
  shows "game_load zk fen g' = game_load zk fen g"
proof -
  have c: "computeHash zk (clear_position g') = computeHash zk (clear_position g)"
    by (simp add: computeHash_def clear_position_def pieceKey_def epKey_def castlingKey_def)
  have "(clear_position g')\<lparr>hash := computeHash zk (clear_position g'), positionCount := Map.empty\<rparr>
        = (clear_position g)\<lparr>hash := computeHash zk (clear_position g), positionCount := Map.empty\<rparr>"
    unfolding c using assms by (intro game.equality) (simp_all add: clear_position_def)
  then show ?thesis by (simp add: game_load_def Let_def)
qed

lemma game_load_board:
  assumes "game_load zk fen g = Loaded g1 \<or> game_load zk fen g = Garbled g1"
  shows "board g1 = placement_board (fen_tokens fen ! 0) \<and> history g1 = []"
proof -
  let ?t = "fen_tokens fen"
  let ?g0 = "(clear_position g)\<lparr>hash := computeHash zk (clear_position g), positionCount := Map.empty\<rparr>"
  from assms obtain g2 where p: "place_pieces zk (?t ! 0) 0 ?g0 = Inr g2"
    by (cases "place_pieces zk (?t ! 0) 0 ?g0") (auto simp: game_load_def Let_def)
  from place_pieces_Inr [OF p] have b: "board g2 = placement_board (?t ! 0)" "history g2 = []"
    by (simp_all add: placement_board_def clear_position_def)
  define g3 where "g3 = (if ?t ! 1 = ''w'' \<or> ?t ! 1 = ''b''
                         then g2\<lparr>turn := (if ?t ! 1 = ''w'' then White else Black)\<rparr> else g2)"
  define g4 where "g4 = updateCastlingRights zk
       (g3\<lparr>castling := (\<lambda>c. if c = White
          then (if CHR ''K'' \<in> set (?t ! 2) then KSIDE_CASTLE else 0)
               OR (if CHR ''Q'' \<in> set (?t ! 2) then QSIDE_CASTLE else 0)
          else (if CHR ''k'' \<in> set (?t ! 2) then KSIDE_CASTLE else 0)
               OR (if CHR ''q'' \<in> set (?t ! 2) then QSIDE_CASTLE else 0))\<rparr>)"
  have b4: "board g4 = placement_board (?t ! 0)" "history g4 = []"
    using b by (simp_all add: g4_def g3_def)
  have gl: "game_load zk fen g =
              (if length ?t < 3 then LoadRaises TypeError
               else if \<not> (?t ! 1 = ''w'' \<or> ?t ! 1 = ''b'') \<or> length ?t < 6 then Garbled g4
               else (case (if ?t ! 3 = ''-'' then Some EMPTY else Ox88 (?t ! 3),
                           parseInt (?t ! 4), parseInt (?t ! 5)) of
                       (Some ep, Some hm, Some mn) \<Rightarrow>
                         if exact_count hm \<and> exact_count mn
                         then Loaded (g4\<lparr>epSquare := ep, fenEpSquare := ep, halfMoves := hm,
                                         moveNumber := mn,
                                         hash := computeHash zk
                                           (g4\<lparr>epSquare := ep, fenEpSquare := ep, halfMoves := hm,
                                               moveNumber := mn\<rparr>)\<rparr>)
                         else Garbled g4
                     | _ \<Rightarrow> Garbled g4))"
    unfolding game_load_def Let_def g4_def g3_def p by (simp only: sum.case)
  from assms show ?thesis
    unfolding gl using b4 by (auto split: if_splits option.splits)
qed

text \<open>
  C9. \<open>ChessPGN.load\<close> applies the FEN to the underlying game before it validates. For every
  six-field FEN that the validator rejects and whose placement field \<open>Game.load\<close> reads
  without a \<open>TypeError\<close>, \<open>load\<close> throws the validator's error, and the game is left as
  \<open>Game.load\<close> has made it: its board is the one built from the placement field of the rejected
  FEN, its history is empty, and nothing of the position before the call remains, since any
  two games with the same headers are left in the same state.
\<close>

theorem chess_load_mutates_before_validation:
  assumes "length (split_ws fen) = 6" and "validateFen fen = Some msg"
    and "\<forall>e. game_load zk fen g \<noteq> LoadRaises e"
  shows "\<exists>g1. fst (chess_load zk fen False preserveHeaders g) = Inl (Error msg None)
           \<and> ((game_load zk fen g = Loaded g1
                \<and> snd (chess_load zk fen False preserveHeaders g) = Whole g1)
               \<or> (game_load zk fen g = Garbled g1
                   \<and> snd (chess_load zk fen False preserveHeaders g) = Partly g1))
           \<and> board g1 = placement_board (split_ws fen ! 0)
           \<and> history g1 = []
           \<and> (\<forall>g'. header g' = header g \<longrightarrow>
                 chess_load zk fen False preserveHeaders g'
                 = chess_load zk fen False preserveHeaders g)"
proof -
  from assms(3) obtain g1 where l: "game_load zk fen g = Loaded g1 \<or> game_load zk fen g = Garbled g1"
    by (cases "game_load zk fen g") auto
  from game_load_board [OF l] assms(1)
  have b: "board g1 = placement_board (split_ws fen ! 0)" "history g1 = []"
    by (simp_all add: fen_tokens_six)
  have i: "chess_load zk fen False preserveHeaders g' = chess_load zk fen False preserveHeaders g"
    if "header g' = header g" for g'
    using game_load_header_only [OF that, of zk fen] by (simp add: chess_load_def)
  from l assms(2) have
    "fst (chess_load zk fen False preserveHeaders g) = Inl (Error msg None)
     \<and> ((game_load zk fen g = Loaded g1
          \<and> snd (chess_load zk fen False preserveHeaders g) = Whole g1)
         \<or> (game_load zk fen g = Garbled g1
             \<and> snd (chess_load zk fen False preserveHeaders g) = Partly g1))"
    by (auto simp: chess_load_def)
  with b i show ?thesis by blast
qed

theorem chess_load_mutates_before_validation_witness:
  "length (split_ws edge_pawn_fen) = 6
   \<and> validateFen edge_pawn_fen = Some ''Invalid FEN: some pawns are on the edge rows''
   \<and> (\<forall>e. game_load demo_keys edge_pawn_fen (new_Game demo_keys) \<noteq> LoadRaises e)
   \<and> (\<exists>g1. chess_load demo_keys edge_pawn_fen False False (new_Game demo_keys)
             = (Inl (Error ''Invalid FEN: some pawns are on the edge rows'' None), Whole g1)
         \<and> board g1 = placement_board ''P3k3/8/8/8/8/8/8/4K3''
         \<and> board g1 0 = Some (Piece White Pawn)
         \<and> fen_forced g1 = edge_pawn_fen)
   \<and> fen_forced (new_Game demo_keys) = DEFAULT_POSITION
   \<and> board (new_Game demo_keys) 0 = Some (Piece Black Rook)
   \<and> (case chess_load demo_keys bad_side_fen False False (new_Game demo_keys) of
         (Inl e, Partly g1) \<Rightarrow> e = Error ''Invalid FEN: side-to-move is invalid'' None
                                \<and> board g1 4 = Some (Piece Black King) \<and> board g1 0 = None
       | _ \<Rightarrow> False)"
proof -
  let ?g = "new_Game demo_keys"
  have h1: "length (split_ws edge_pawn_fen) = 6" by code_simp
  have h2: "validateFen edge_pawn_fen = Some ''Invalid FEN: some pawns are on the edge rows''"
    by code_simp
  have l: "case game_load demo_keys edge_pawn_fen ?g of
             Loaded g1 \<Rightarrow> fen_forced g1 = edge_pawn_fen \<and> board g1 0 = Some (Piece White Pawn)
           | _ \<Rightarrow> False"
    by code_simp
  then have h3: "\<forall>e. game_load demo_keys edge_pawn_fen ?g \<noteq> LoadRaises e"
    by (auto split: load_result.splits)
  have t: "split_ws edge_pawn_fen ! 0 = ''P3k3/8/8/8/8/8/8/4K3''" by code_simp
  from l obtain g0 where g0: "game_load demo_keys edge_pawn_fen ?g = Loaded g0"
    "fen_forced g0 = edge_pawn_fen" "board g0 0 = Some (Piece White Pawn)"
    by (cases "game_load demo_keys edge_pawn_fen ?g") simp_all
  from chess_load_mutates_before_validation [OF h1 h2 h3, of False]
  obtain g1 where c: "fst (chess_load demo_keys edge_pawn_fen False False ?g)
                        = Inl (Error ''Invalid FEN: some pawns are on the edge rows'' None)"
    and d: "(game_load demo_keys edge_pawn_fen ?g = Loaded g1
             \<and> snd (chess_load demo_keys edge_pawn_fen False False ?g) = Whole g1)
            \<or> (game_load demo_keys edge_pawn_fen ?g = Garbled g1
                \<and> snd (chess_load demo_keys edge_pawn_fen False False ?g) = Partly g1)"
    and b: "board g1 = placement_board (split_ws edge_pawn_fen ! 0)"
    by blast
  from d g0(1) have e: "g1 = g0" "snd (chess_load demo_keys edge_pawn_fen False False ?g) = Whole g0"
    by auto
  from c e(2) have "chess_load demo_keys edge_pawn_fen False False ?g
                    = (Inl (Error ''Invalid FEN: some pawns are on the edge rows'' None), Whole g0)"
    by (simp add: prod_eq_iff)
  with b e(1) g0 t
  have a: "\<exists>g1. chess_load demo_keys edge_pawn_fen False False ?g
               = (Inl (Error ''Invalid FEN: some pawns are on the edge rows'' None), Whole g1)
             \<and> board g1 = placement_board ''P3k3/8/8/8/8/8/8/4K3''
             \<and> board g1 0 = Some (Piece White Pawn)
             \<and> fen_forced g1 = edge_pawn_fen"
    by (intro exI [of _ g0]) simp
  have pre: "fen_forced ?g = DEFAULT_POSITION \<and> board ?g 0 = Some (Piece Black Rook)"
    by code_simp
  have bad: "case chess_load demo_keys bad_side_fen False False ?g of
         (Inl e, Partly g1) \<Rightarrow> e = Error ''Invalid FEN: side-to-move is invalid'' None
                                \<and> board g1 4 = Some (Piece Black King) \<and> board g1 0 = None
       | _ \<Rightarrow> False"
    by code_simp
  from h1 h2 h3 a pre bad show ?thesis by blast
qed

text \<open>
  C5. The starting position written with four fields: \<open>Game.load\<close> fills in the two counters
  and reads the starting position, and \<open>ChessPGN.load\<close> with \<open>skipValidation\<close> completes; but
  without \<open>skipValidation\<close>, \<open>ChessPGN.load\<close> validates the text as it was given, not as
  \<open>Game.load\<close> completed it, and throws the error of the six-field rule.
\<close>

theorem chess_load_short_fen_raises:
  "length (split_ws short_fen) = 4
   \<and> fen_tokens short_fen
       = [''rnbqkbnr/pppppppp/8/8/8/8/PPPPPPPP/RNBQKBNR'', ''w'', ''KQkq'', ''-'', ''0'', ''1'']
   \<and> validateFen (join_sp (fen_tokens short_fen)) = None
   \<and> (case game_load demo_keys short_fen (new_Game demo_keys) of
         Loaded g1 \<Rightarrow> fen_forced g1 = DEFAULT_POSITION | _ \<Rightarrow> False)
   \<and> fst (chess_load demo_keys short_fen True False (new_Game demo_keys)) = Inr ()
   \<and> fst (chess_load demo_keys short_fen False False (new_Game demo_keys))
       = Inl (Error ''Invalid FEN: must contain six space-delimited fields'' None)"
  by code_simp

theorem chess_load_short_fen_raises_witness:
  "fst (chess_load demo_keys short_fen False False (new_Game demo_keys))
     = Inl (Error ''Invalid FEN: must contain six space-delimited fields'' None)
   \<and> fst (chess_load demo_keys short_fen True False (new_Game demo_keys)) = Inr ()"
  using chess_load_short_fen_raises by simp

end
